theory Spec2Isabelle
  imports Main "HOL-Library.Word" "HOL-Library.AList"
begin

unbundle bit_operations_syntax

text \<open>
  A shallow embedding of the Go SDK for Phoenix: the configuration resolver, the
  authenticating transport, the error predicates, the wire-to-domain conversions, the
  evaluator, the OpenTelemetry registration and the trace and span adapter.  A pointer
  that the code tests for nil is an \<open>option\<close>; a pointer that its callers always allocate
  (a method receiver, the target of an option closure, a request) is the value it
  points to, and a method with a pointer receiver returns the value it leaves behind.
  Where a pointer is shared and written through, as the configuration of the client
  options is, the objects live in a store and the pointer is an address in it.  A panic
  is a value of its own, apart from the errors the code returns.
\<close>

section \<open>Errors (errors.go)\<close>

text \<open>
  The package-level sentinel errors are created once with \<^verbatim>\<open>errors.New\<close>; each is a distinct
  pointer, compared by identity.  \<^verbatim>\<open>*APIError\<close> is the only error struct of the package.
  The remaining constructors cover what a caller can hand to the predicates: an error
  that wraps another one (\<^verbatim>\<open>fmt.Errorf("...%w", err)\<close>, one \<^verbatim>\<open>Unwrap() error\<close>; the string
  is the text of the format before the verb), a joined error (\<^verbatim>\<open>errors.Join\<close>,
  \<^verbatim>\<open>Unwrap() []error\<close>), a sentinel of the \<^verbatim>\<open>llmops\<close> interface module, and any other
  error value with no \<^verbatim>\<open>Unwrap\<close> method.  A nil interface value is \<open>None\<close> of
  \<open>go_error option\<close>.
\<close>

datatype sentinel =
    ErrMissingURL
  | ErrMissingAPIKey
  | ErrProjectNotFound
  | ErrTraceNotFound
  | ErrSpanNotFound
  | ErrDatasetNotFound
  | ErrExperimentNotFound
  | ErrPromptNotFound
  | ErrInvalidInput

datatype llmops_sentinel = ErrNoActiveTrace

record APIError =
  StatusCode :: int
  Message :: string
  Details :: string

datatype go_error =
    Sentinel sentinel
  | APIErr APIError
  | Wrapped string go_error
  | Joined "go_error list"
  | LLMOps llmops_sentinel
  | OtherError string

section \<open>Configuration (config.go)\<close>

definition DefaultURL :: string where
  "DefaultURL = ''http://localhost:6006''"

definition DefaultProjectName :: string where
  "DefaultProjectName = ''default''"

record Config =
  URL :: string
  SpaceID :: string
  APIKey :: string
  ProjectName :: string

text \<open>\<^verbatim>\<open>strings.HasSuffix\<close> and \<^verbatim>\<open>strings.TrimSuffix\<close> of the Go standard library.\<close>

definition HasSuffix :: "string \<Rightarrow> string \<Rightarrow> bool" where
  "HasSuffix s suffix \<longleftrightarrow>
     length suffix \<le> length s \<and> drop (length s - length suffix) s = suffix"

definition TrimSuffix :: "string \<Rightarrow> string \<Rightarrow> string" where
  "TrimSuffix s suffix =
     (if HasSuffix s suffix then take (length s - length suffix) s else s)"

text \<open>
  \<^verbatim>\<open>Validate\<close> has a pointer receiver and mutates it; the model returns the error
  together with the configuration as the call leaves it.
\<close>

definition Validate :: "Config \<Rightarrow> go_error option \<times> Config" where
  "Validate c =
     (if URL c = '''' then (Some (Sentinel ErrMissingURL), c)
      else
        let c1 = c\<lparr>URL := TrimSuffix (URL c) ''/''\<rparr>;
            c2 = (if SpaceID c1 \<noteq> '''' then c1\<lparr>URL := URL c1 @ ''/s/'' @ SpaceID c1\<rparr> else c1)
        in (None, c2))"

text \<open>
  The wording of the specification: the previous value "with at most one trailing
  slash removed".
\<close>

definition drop_one_trailing_slash :: "string \<Rightarrow> string" where
  "drop_one_trailing_slash s = (if s \<noteq> [] \<and> last s = CHR ''/'' then butlast s else s)"

section \<open>Error classification (errors.go)\<close>

text \<open>
  \<^verbatim>\<open>errors.Is\<close> of the Go standard library, for a sentinel as target: it walks the
  \<^verbatim>\<open>Unwrap\<close> chain (depth first through a joined error) and compares each error met
  with the target by identity.  No error type of this package has an \<^verbatim>\<open>Is\<close> method,
  and \<^verbatim>\<open>*APIError\<close> has no \<^verbatim>\<open>Unwrap\<close>.
\<close>

fun errors_Is :: "go_error \<Rightarrow> sentinel \<Rightarrow> bool" where
  "errors_Is (Sentinel s) target = (s = target)"
| "errors_Is (APIErr a) target = False"
| "errors_Is (Wrapped msg e) target = errors_Is e target"
| "errors_Is (Joined es) target = list_ex (\<lambda>e. errors_Is e target) es"
| "errors_Is (LLMOps s) target = False"
| "errors_Is (OtherError msg) target = False"

fun IsNotFound :: "go_error option \<Rightarrow> bool" where
  "IsNotFound None = False"
| "IsNotFound (Some (APIErr apiErr)) = (StatusCode apiErr = 404)"
| "IsNotFound (Some err) =
     (errors_Is err ErrProjectNotFound \<or>
      errors_Is err ErrTraceNotFound \<or>
      errors_Is err ErrSpanNotFound \<or>
      errors_Is err ErrDatasetNotFound \<or>
      errors_Is err ErrExperimentNotFound \<or>
      errors_Is err ErrPromptNotFound)"

text \<open>
  The wording of the specification: an error "wraps" another one when unwrapping it,
  zero or more times, reaches that error.
\<close>

inductive wraps :: "go_error \<Rightarrow> go_error \<Rightarrow> bool" where
  wraps_self: "wraps e e"
| wraps_Wrapped: "wraps e x \<Longrightarrow> wraps (Wrapped msg e) x"
| wraps_Joined: "e \<in> set es \<Longrightarrow> wraps e x \<Longrightarrow> wraps (Joined es) x"

definition not_found_sentinels :: "sentinel set" where
  "not_found_sentinels =
     {ErrProjectNotFound, ErrTraceNotFound, ErrSpanNotFound,
      ErrDatasetNotFound, ErrExperimentNotFound, ErrPromptNotFound}"

section \<open>Wire-to-domain conversion (client.go, span.go)\<close>

text \<open>
  Modelled from the spec: the wire types of \<^verbatim>\<open>internal/api\<close> are generated code that
  is not among the source files.  The specification has field presence and absence
  "tracked by generated optional-field wrappers"; the conversions read \<^verbatim>\<open>Value\<close> and \<^verbatim>\<open>Set\<close> of an
  optional field and, for a nullable optional field, also \<^verbatim>\<open>Null\<close>.  The wire records
  carry the fields the conversions read.  A \<^verbatim>\<open>time.Time\<close> is an integer count of
  nanoseconds, the zero value being 0.
\<close>

type_synonym Time = int

record OptString =
  OptString_Value :: string
  OptString_Set :: bool

record OptNilString =
  OptNilString_Value :: string
  OptNilString_Set :: bool
  OptNilString_Null :: bool

record api_Project =
  api_Project_ID :: string
  api_Project_Name :: string
  api_Project_Description :: OptNilString

record api_SpanContext =
  api_TraceID :: string
  api_SpanID :: string

record api_Span =
  api_Span_ID :: OptString
  api_Span_Name :: string
  api_Span_Context :: api_SpanContext
  api_Span_SpanKind :: string
  api_Span_ParentID :: OptNilString
  api_Span_StartTime :: Time
  api_Span_EndTime :: Time
  api_Span_StatusCode :: string
  api_Span_StatusMessage :: OptString

record Project =
  Project_ID :: string
  Project_Name :: string
  Project_Description :: string
  Project_CreatedAt :: Time
  Project_UpdatedAt :: Time

record Span =
  Span_ID :: string
  Span_Name :: string
  Span_SpanKind :: string
  Span_StatusCode :: string
  Span_StatusMessage :: string
  Span_ParentID :: string
  Span_TraceID :: string
  Span_SpanID :: string
  Span_StartTime :: Time
  Span_EndTime :: Time

text \<open>The zero values of the two domain structs, as a Go composite literal leaves them.\<close>

definition zero_Project :: Project where
  "zero_Project =
     \<lparr>Project_ID = '''', Project_Name = '''', Project_Description = '''',
      Project_CreatedAt = 0, Project_UpdatedAt = 0\<rparr>"

definition zero_Span :: Span where
  "zero_Span =
     \<lparr>Span_ID = '''', Span_Name = '''', Span_SpanKind = '''', Span_StatusCode = '''',
      Span_StatusMessage = '''', Span_ParentID = '''', Span_TraceID = '''',
      Span_SpanID = '''', Span_StartTime = 0, Span_EndTime = 0\<rparr>"

text \<open>Both conversions take a pointer; \<open>None\<close> is the nil pointer.\<close>

fun convertProject :: "api_Project option \<Rightarrow> Project option" where
  "convertProject None = None"
| "convertProject (Some p) =
     (let project = zero_Project\<lparr>Project_ID := api_Project_ID p,
                                 Project_Name := api_Project_Name p\<rparr>;
          project = (if OptNilString_Set (api_Project_Description p) \<and>
                        \<not> OptNilString_Null (api_Project_Description p)
                     then project\<lparr>Project_Description :=
                                     OptNilString_Value (api_Project_Description p)\<rparr>
                     else project)
      in Some project)"

fun convertSpan :: "api_Span option \<Rightarrow> Span option" where
  "convertSpan None = None"
| "convertSpan (Some s) =
     (let span = zero_Span\<lparr>Span_Name := api_Span_Name s,
                           Span_SpanKind := api_Span_SpanKind s,
                           Span_StatusCode := api_Span_StatusCode s,
                           Span_StartTime := api_Span_StartTime s,
                           Span_EndTime := api_Span_EndTime s,
                           Span_TraceID := api_TraceID (api_Span_Context s),
                           Span_SpanID := api_SpanID (api_Span_Context s)\<rparr>;
          span = (if OptString_Set (api_Span_ID s)
                  then span\<lparr>Span_ID := OptString_Value (api_Span_ID s)\<rparr> else span);
          span = (if OptString_Set (api_Span_StatusMessage s)
                  then span\<lparr>Span_StatusMessage := OptString_Value (api_Span_StatusMessage s)\<rparr>
                  else span);
          span = (if OptNilString_Set (api_Span_ParentID s) \<and>
                     \<not> OptNilString_Null (api_Span_ParentID s)
                  then span\<lparr>Span_ParentID := OptNilString_Value (api_Span_ParentID s)\<rparr>
                  else span)
      in Some span)"

section \<open>Configuration resolution (config.go, options.go, client.go)\<close>

text \<open>
  The process environment is a function from variable names to values;
  \<^verbatim>\<open>os.Getenv\<close> returns the empty string for a variable that is not set.
\<close>

type_synonym environ = "string \<Rightarrow> string"

definition EnvURL :: string where "EnvURL = ''PHOENIX_URL''"
definition EnvAPIKey :: string where "EnvAPIKey = ''PHOENIX_API_KEY''"
definition EnvProjectName :: string where "EnvProjectName = ''PHOENIX_PROJECT_NAME''"
definition EnvSpaceID :: string where "EnvSpaceID = ''PHOENIX_SPACE_ID''"

definition NewConfig :: Config where
  "NewConfig =
     \<lparr>URL = DefaultURL, SpaceID = '''', APIKey = '''', ProjectName = DefaultProjectName\<rparr>"

definition loadFromEnv :: "environ \<Rightarrow> Config \<Rightarrow> Config" where
  "loadFromEnv env c =
     (let c = (if env EnvURL \<noteq> '''' then c\<lparr>URL := env EnvURL\<rparr> else c);
          c = (if env EnvSpaceID \<noteq> ''''
               then (let c = c\<lparr>SpaceID := env EnvSpaceID\<rparr>
                     in if URL c = DefaultURL
                        then c\<lparr>URL := ''https://app.phoenix.arize.com''\<rparr> else c)
               else c);
          c = (if env EnvAPIKey \<noteq> '''' then c\<lparr>APIKey := env EnvAPIKey\<rparr> else c);
          c = (if env EnvProjectName \<noteq> ''''
               then c\<lparr>ProjectName := env EnvProjectName\<rparr> else c)
      in c)"

definition LoadConfig :: "environ \<Rightarrow> Config" where
  "LoadConfig env = loadFromEnv env NewConfig"

text \<open>
  \<^verbatim>\<open>clientOptions\<close> holds a pointer to the configuration in use, and options write
  through it, so the configurations live in a store.  The store has the configuration
  that \<^verbatim>\<open>LoadConfig\<close> allocates for the call and the configurations of the caller, which
  \<^verbatim>\<open>WithConfig\<close> can point to; the caller's are named by numbers, the same number being
  the same pointer.  A \<^verbatim>\<open>*http.Client\<close> is an opaque handle; \<open>None\<close> is nil.  A
  \<^verbatim>\<open>time.Duration\<close> is a count of nanoseconds.
\<close>

type_synonym Duration = int

datatype config_ptr = LoadedConfig | CallerConfig nat

record config_store =
  loaded :: Config
  caller :: "nat \<Rightarrow> Config"

fun deref :: "config_store \<Rightarrow> config_ptr \<Rightarrow> Config" where
  "deref st LoadedConfig = loaded st"
| "deref st (CallerConfig r) = caller st r"

fun assign :: "config_store \<Rightarrow> config_ptr \<Rightarrow> Config \<Rightarrow> config_store" where
  "assign st LoadedConfig c = st\<lparr>loaded := c\<rparr>"
| "assign st (CallerConfig r) c = st\<lparr>caller := (caller st)(r := c)\<rparr>"

record clientOptions =
  config :: config_ptr
  httpClient :: "nat option"
  timeout :: Duration

text \<open>
  \<^verbatim>\<open>defaultClientOptions\<close> allocates the loaded configuration; \<open>callers\<close> are the
  configurations of the caller as they are when \<^verbatim>\<open>NewClient\<close> is called.
\<close>

definition defaultClientOptions ::
  "environ \<Rightarrow> (nat \<Rightarrow> Config) \<Rightarrow> config_store \<times> clientOptions" where
  "defaultClientOptions env callers =
     (\<lparr>loaded = LoadConfig env, caller = callers\<rparr>,
      \<lparr>config = LoadedConfig, httpClient = None, timeout = 60 * 1000000000\<rparr>)"

text \<open>
  An \<^verbatim>\<open>Option\<close> is a closure over \<^verbatim>\<open>*clientOptions\<close>; the package builds them with the
  seven constructors below, and \<open>apply_Option\<close> is the body of each closure.  The four
  field options write into the configuration in use (\<^verbatim>\<open>o.config.URL = url\<close>);
  \<^verbatim>\<open>WithConfig\<close> puts the caller's pointer in use (\<^verbatim>\<open>o.config = config\<close>).
\<close>

datatype Option =
    WithURL string
  | WithAPIKey string
  | WithProjectName string
  | WithSpaceID string
  | WithConfig nat
  | WithHTTPClient "nat option"
  | WithTimeout Duration

fun apply_Option ::
  "Option \<Rightarrow> config_store \<times> clientOptions \<Rightarrow> config_store \<times> clientOptions" where
  "apply_Option (WithURL url) (st, o') =
     (assign st (config o') ((deref st (config o'))\<lparr>URL := url\<rparr>), o')"
| "apply_Option (WithAPIKey apiKey) (st, o') =
     (assign st (config o') ((deref st (config o'))\<lparr>APIKey := apiKey\<rparr>), o')"
| "apply_Option (WithProjectName projectName) (st, o') =
     (assign st (config o') ((deref st (config o'))\<lparr>ProjectName := projectName\<rparr>), o')"
| "apply_Option (WithSpaceID spaceID) (st, o') =
     (assign st (config o') ((deref st (config o'))\<lparr>SpaceID := spaceID\<rparr>), o')"
| "apply_Option (WithConfig cfg) (st, o') = (st, o'\<lparr>config := CallerConfig cfg\<rparr>)"
| "apply_Option (WithHTTPClient hc) (st, o') = (st, o'\<lparr>httpClient := hc\<rparr>)"
| "apply_Option (WithTimeout t) (st, o') = (st, o'\<lparr>timeout := t\<rparr>)"

text \<open>
  The first statements of \<^verbatim>\<open>NewClient\<close>: the options start from
  \<^verbatim>\<open>defaultClientOptions()\<close> and every given option is applied in order.  The effective
  configuration is the one the pointer of the options leads to afterwards.
\<close>

definition NewClient_options ::
  "environ \<Rightarrow> (nat \<Rightarrow> Config) \<Rightarrow> Option list \<Rightarrow> config_store \<times> clientOptions" where
  "NewClient_options env callers opts =
     foldl (\<lambda>options opt. apply_Option opt options) (defaultClientOptions env callers) opts"












section \<open>Authenticated transport (client.go)\<close>

text \<open>
  \<^verbatim>\<open>net/http\<close>: a header is a map from keys to value lists; \<^verbatim>\<open>Header.Set\<close> and
  \<^verbatim>\<open>Header.Get\<close> canonicalise the key with \<^verbatim>\<open>textproto.CanonicalMIMEHeaderKey\<close>: a key
  made of token bytes only gets an upper-case first letter and an upper-case letter
  after every hyphen, all other letters in lower case; any other key is left as it is.
\<close>

type_synonym Header = "string \<rightharpoonup> string list"

definition isLower :: "char \<Rightarrow> bool" where
  "isLower c \<longleftrightarrow> (97::nat) \<le> of_char c \<and> of_char c \<le> (122::nat)"

definition isUpper :: "char \<Rightarrow> bool" where
  "isUpper c \<longleftrightarrow> (65::nat) \<le> of_char c \<and> of_char c \<le> (90::nat)"

definition isDigit :: "char \<Rightarrow> bool" where
  "isDigit c \<longleftrightarrow> (48::nat) \<le> of_char c \<and> of_char c \<le> (57::nat)"

definition validHeaderFieldByte :: "char \<Rightarrow> bool" where
  "validHeaderFieldByte c \<longleftrightarrow>
     isLower c \<or> isUpper c \<or> isDigit c \<or> c \<in> set ''!#$%&*+-.^_`|~'' \<or> of_char c = (39::nat)"

fun canonical_bytes :: "bool \<Rightarrow> string \<Rightarrow> string" where
  "canonical_bytes upper [] = []"
| "canonical_bytes upper (c # cs) =
     (let c' = (if upper \<and> isLower c then char_of (of_char c - (32::nat))
                else if \<not> upper \<and> isUpper c then char_of (of_char c + (32::nat))
                else c)
      in c' # canonical_bytes (c' = CHR ''-'') cs)"

definition CanonicalMIMEHeaderKey :: "string \<Rightarrow> string" where
  "CanonicalMIMEHeaderKey s =
     (if list_all validHeaderFieldByte s then canonical_bytes True s else s)"

definition Header_Set :: "Header \<Rightarrow> string \<Rightarrow> string \<Rightarrow> Header" where
  "Header_Set h key v = h(CanonicalMIMEHeaderKey key \<mapsto> [v])"

definition Header_Get :: "Header \<Rightarrow> string \<Rightarrow> string" where
  "Header_Get h key =
     (case h (CanonicalMIMEHeaderKey key) of None \<Rightarrow> '''' | Some [] \<Rightarrow> '''' | Some (v # vs) \<Rightarrow> v)"

text \<open>
  A request carries its header next to the parts \<^verbatim>\<open>Do\<close> does not look at.  Requests
  reach \<^verbatim>\<open>Do\<close> from the generated client, which builds them with \<^verbatim>\<open>http.NewRequest\<close>,
  so the header map is allocated.
\<close>

record Request =
  Method :: string
  Request_URL :: string
  Request_Header :: Header
  Body :: string

definition Version :: string where
  "Version = ''0.1.0''"

record authHTTPClient =
  client :: nat
  apiKey :: string

text \<open>
  \<^verbatim>\<open>authHTTPClient.Do\<close>.  What the wrapped \<^verbatim>\<open>*http.Client\<close> does with a request is the
  parameter \<open>http_Do\<close>; the request it is given is the one \<^verbatim>\<open>Do\<close> has written the
  headers into.
\<close>

definition Do :: "(nat \<Rightarrow> Request \<Rightarrow> 'r) \<Rightarrow> authHTTPClient \<Rightarrow> Request \<Rightarrow> 'r" where
  "Do http_Do c req =
     (let req = (if apiKey c \<noteq> ''''
                 then req\<lparr>Request_Header :=
                            Header_Set (Request_Header req) ''Authorization'' (''Bearer '' @ apiKey c)\<rparr>
                 else req);
          req = req\<lparr>Request_Header :=
                      Header_Set (Request_Header req) ''X-Phoenix-SDK-Version'' Version\<rparr>;
          req = req\<lparr>Request_Header :=
                      Header_Set (Request_Header req) ''X-Phoenix-SDK-Lang'' ''go''\<rparr>
      in http_Do (client c) req)"

text \<open>
  \<^verbatim>\<open>NewClient\<close>.  The generated constructor \<^verbatim>\<open>api.NewClient\<close> is the parameter
  \<open>api_NewClient\<close>: it gets the base URL and the authenticating transport and returns
  the generated client or an error.  \<^verbatim>\<open>Validate\<close> works on the configuration in use
  through the pointer, and the client keeps that pointer; the call returns its result
  and the store as it leaves it.
\<close>

record 'api Client =
  Client_config :: config_ptr
  apiClient :: 'api

definition NewClient ::
  "(string \<Rightarrow> authHTTPClient \<Rightarrow> go_error + 'api) \<Rightarrow> (Duration \<Rightarrow> nat) \<Rightarrow>
   environ \<Rightarrow> (nat \<Rightarrow> Config) \<Rightarrow> Option list \<Rightarrow>
   (go_error + 'api Client) \<times> config_store" where
  "NewClient api_NewClient new_http_Client env callers opts =
     (let (st, options) = NewClient_options env callers opts;
          (err, cfg) = Validate (deref st (config options));
          st = assign st (config options) cfg
      in case err of
           Some err \<Rightarrow> (Inl err, st)
         | None \<Rightarrow>
             (let hc = (case httpClient options of
                          None \<Rightarrow> new_http_Client (timeout options)
                        | Some h \<Rightarrow> h);
                  authClient = \<lparr>client = hc, apiKey = APIKey cfg\<rparr>
              in case api_NewClient (URL cfg) authClient of
                   Inl err \<Rightarrow> (Inl err, st)
                 | Inr api \<Rightarrow> (Inr \<lparr>Client_config = config options, apiClient = api\<rparr>, st)))"

section \<open>Example inputs\<close>

text \<open>
  An environment with no variable set, a request with no header yet, and a transport
  that hands back the request it is given (so that what \<^verbatim>\<open>Do\<close> delegates can be read off).
\<close>

definition empty_env :: environ where
  "empty_env name = ''''"

definition no_headers :: Header where
  "no_headers = Map.empty"

definition echo_transport :: "nat \<Rightarrow> Request \<Rightarrow> Request" where
  "echo_transport h req = req"



section \<open>Evaluator (evals/evaluator.go)\<close>

text \<open>
  A Go value of type \<^verbatim>\<open>any\<close>: nil, a string, a byte slice, a \<^verbatim>\<open>map[string]any\<close>, or a
  value of some other dynamic type (told apart by a tag).  A \<^verbatim>\<open>float64\<close> is carried as
  its 64 bits; the code never computes with one.
\<close>

datatype any_value =
    AnyNil
  | AnyString string
  | AnyBytes string
  | AnyMap "(string \<times> any_value) list"
  | AnyOther nat

type_synonym float64 = "64 word"

text \<open>
  The types of the \<^verbatim>\<open>llmops\<close> interface module, with the fields this repository reads
  and writes.  A metric is its name and its scoring function.  An error that comes from
  outside the package (from a metric, from the REST call) is represented by its
  \<^verbatim>\<open>Error()\<close> text, which is all the evaluator reads of it; \<open>None\<close> is nil.
\<close>

record MetricScore =
  MetricScore_Name :: string
  MetricScore_Score :: float64
  MetricScore_Reason :: string
  MetricScore_Metadata :: any_value
  MetricScore_Error :: string

definition zero_MetricScore :: MetricScore where
  "zero_MetricScore =
     \<lparr>MetricScore_Name = '''', MetricScore_Score = 0, MetricScore_Reason = '''',
      MetricScore_Metadata = AnyNil, MetricScore_Error = ''''\<rparr>"

record EvalInput =
  EvalInput_Input :: any_value
  EvalInput_Output :: any_value
  EvalInput_SpanID :: string

record Metric =
  Metric_Name :: string
  Metric_Evaluate :: "EvalInput \<Rightarrow> MetricScore \<times> string option"

record EvalResult =
  EvalResult_Scores :: "MetricScore list"
  EvalResult_Duration :: Duration
  EvalResult_Metadata :: "(string \<times> any_value) list option"

text \<open>
  Modelled from the spec: the generated request types of \<^verbatim>\<open>internal/api\<close> for span
  annotations, with the fields the evaluator fills in; the generated setters
  \<^verbatim>\<open>SetScore\<close>, \<^verbatim>\<open>SetExplanation\<close> and \<^verbatim>\<open>SetLabel\<close> assign the field of the same name.
\<close>

record OptNilFloat64 =
  OptNilFloat64_Value :: float64
  OptNilFloat64_Set :: bool
  OptNilFloat64_Null :: bool

record AnnotationResult =
  AnnotationResult_Label :: OptNilString
  AnnotationResult_Score :: OptNilFloat64
  AnnotationResult_Explanation :: OptNilString

record OptAnnotationResult =
  OptAnnotationResult_Value :: AnnotationResult
  OptAnnotationResult_Set :: bool

datatype SpanAnnotationDataAnnotatorKind =
    SpanAnnotationDataAnnotatorKindLLM
  | SpanAnnotationDataAnnotatorKindCODE
  | SpanAnnotationDataAnnotatorKindHUMAN

record SpanAnnotationData =
  SpanAnnotationData_SpanID :: string
  SpanAnnotationData_Name :: string
  SpanAnnotationData_AnnotatorKind :: SpanAnnotationDataAnnotatorKind
  SpanAnnotationData_Result :: OptAnnotationResult

definition zero_OptNilString :: OptNilString where
  "zero_OptNilString =
     \<lparr>OptNilString_Value = '''', OptNilString_Set = False, OptNilString_Null = False\<rparr>"

definition zero_AnnotationResult :: AnnotationResult where
  "zero_AnnotationResult =
     \<lparr>AnnotationResult_Label = zero_OptNilString,
      AnnotationResult_Score =
        \<lparr>OptNilFloat64_Value = 0, OptNilFloat64_Set = False, OptNilFloat64_Null = False\<rparr>,
      AnnotationResult_Explanation = zero_OptNilString\<rparr>"

record Evaluator =
  recordResults :: bool

text \<open>A run-time panic of the Go program.\<close>

datatype panic = InterfaceConversion

fun inferAnnotatorKind :: "MetricScore \<Rightarrow> SpanAnnotationDataAnnotatorKind" where
  "inferAnnotatorKind score =
     (case MetricScore_Metadata score of
        AnyMap m \<Rightarrow>
          (case map_of m ''kind'' of
             Some (AnyString kind) \<Rightarrow>
               (if kind = ''llm'' \<or> kind = ''LLM'' then SpanAnnotationDataAnnotatorKindLLM
                else if kind = ''code'' \<or> kind = ''CODE'' then SpanAnnotationDataAnnotatorKindCODE
                else if kind = ''human'' \<or> kind = ''HUMAN'' then SpanAnnotationDataAnnotatorKindHUMAN
                else SpanAnnotationDataAnnotatorKindCODE)
           | _ \<Rightarrow> SpanAnnotationDataAnnotatorKindCODE)
      | _ \<Rightarrow> SpanAnnotationDataAnnotatorKindCODE)"

text \<open>
  The body of the loop of \<^verbatim>\<open>recordScoresToPhoenix\<close> for a score without error.  The
  label is read with \<^verbatim>\<open>score.Metadata.(map[string]any)["label"].(string)\<close>: the inner type
  assertion has the one-result form and panics when the metadata is not nil and not a
  map; only the outer one is checked.
\<close>

definition score_annotation :: "string \<Rightarrow> MetricScore \<Rightarrow> panic + SpanAnnotationData" where
  "score_annotation spanID score =
     (let kind = inferAnnotatorKind score;
          result = zero_AnnotationResult
            \<lparr>AnnotationResult_Score :=
               \<lparr>OptNilFloat64_Value = MetricScore_Score score, OptNilFloat64_Set = True,
                OptNilFloat64_Null = False\<rparr>\<rparr>;
          result = (if MetricScore_Reason score \<noteq> ''''
                    then result\<lparr>AnnotationResult_Explanation :=
                           \<lparr>OptNilString_Value = MetricScore_Reason score,
                            OptNilString_Set = True, OptNilString_Null = False\<rparr>\<rparr>
                    else result);
          labelled =
            (case MetricScore_Metadata score of
               AnyNil \<Rightarrow> Inr result
             | AnyMap m \<Rightarrow>
                 (case map_of m ''label'' of
                    Some (AnyString label) \<Rightarrow>
                      Inr (result\<lparr>AnnotationResult_Label :=
                             \<lparr>OptNilString_Value = label, OptNilString_Set = True,
                              OptNilString_Null = False\<rparr>\<rparr>)
                  | _ \<Rightarrow> Inr result)
             | _ \<Rightarrow> Inl InterfaceConversion)
      in case labelled of
           Inl p \<Rightarrow> Inl p
         | Inr result \<Rightarrow>
             Inr \<lparr>SpanAnnotationData_SpanID = spanID,
                  SpanAnnotationData_Name = MetricScore_Name score,
                  SpanAnnotationData_AnnotatorKind = kind,
                  SpanAnnotationData_Result =
                    \<lparr>OptAnnotationResult_Value = result, OptAnnotationResult_Set = True\<rparr>\<rparr>)"

fun build_annotations :: "string \<Rightarrow> MetricScore list \<Rightarrow> panic + SpanAnnotationData list" where
  "build_annotations spanID [] = Inr []"
| "build_annotations spanID (score # scores) =
     (if MetricScore_Error score \<noteq> '''' then build_annotations spanID scores
      else case score_annotation spanID score of
             Inl p \<Rightarrow> Inl p
           | Inr annotation \<Rightarrow>
               (case build_annotations spanID scores of
                  Inl p \<Rightarrow> Inl p
                | Inr annotations \<Rightarrow> Inr (annotation # annotations)))"

text \<open>
  \<^verbatim>\<open>recordScoresToPhoenix\<close>.  The REST call \<^verbatim>\<open>AnnotateSpans\<close> of the generated client is
  the parameter \<open>AnnotateSpans\<close>: it gets the request data and returns an error or nil.
  The result is the error together with the requests that were sent.
\<close>

definition recordScoresToPhoenix ::
  "(SpanAnnotationData list \<Rightarrow> string option) \<Rightarrow> string \<Rightarrow> MetricScore list \<Rightarrow>
   panic + (string option \<times> SpanAnnotationData list list)" where
  "recordScoresToPhoenix AnnotateSpans spanID scores =
     (case build_annotations spanID scores of
        Inl p \<Rightarrow> Inl p
      | Inr annotations \<Rightarrow>
          (if length annotations = 0 then Inr (None, [])
           else Inr (AnnotateSpans annotations, [annotations])))"

fun run_metrics :: "EvalInput \<Rightarrow> Metric list \<Rightarrow> MetricScore list" where
  "run_metrics input [] = []"
| "run_metrics input (metric # metrics) =
     (let (score, err) = Metric_Evaluate metric input;
          score = (case err of
                     Some msg \<Rightarrow> zero_MetricScore\<lparr>MetricScore_Name := Metric_Name metric,
                                                   MetricScore_Error := msg\<rparr>
                   | None \<Rightarrow> score)
      in score # run_metrics input metrics)"

text \<open>
  \<^verbatim>\<open>Evaluator.Evaluate\<close>.  The two readings of the clock are the parameters \<open>start\<close> and
  \<open>finish\<close>.  The call returns a result pointer (\<open>None\<close> for nil) and an error, next to
  the requests sent, or it panics.
\<close>

definition Evaluate ::
  "(SpanAnnotationData list \<Rightarrow> string option) \<Rightarrow> Evaluator \<Rightarrow> Time \<Rightarrow> Time \<Rightarrow>
   EvalInput \<Rightarrow> Metric list \<Rightarrow>
   panic + ((EvalResult option \<times> go_error option) \<times> SpanAnnotationData list list)" where
  "Evaluate AnnotateSpans e start finish input metrics =
     (let scores = run_metrics input metrics;
          result = \<lparr>EvalResult_Scores = scores, EvalResult_Duration = finish - start,
                    EvalResult_Metadata = None\<rparr>
      in if recordResults e \<and> EvalInput_SpanID input \<noteq> ''''
         then (case recordScoresToPhoenix AnnotateSpans (EvalInput_SpanID input) scores of
                 Inl p \<Rightarrow> Inl p
               | Inr (Some msg, sent) \<Rightarrow>
                   Inr ((Some (result\<lparr>EvalResult_Metadata :=
                                        Some [(''record_error'', AnyString msg)]\<rparr>), None), sent)
               | Inr (None, sent) \<Rightarrow> Inr ((Some result, None), sent))
         else Inr ((Some result, None), []))"

text \<open>
  Example inputs: a metric that scores 1.0 and attaches a string as metadata (as the
  test "wrong metadata type" of \<^verbatim>\<open>inferAnnotatorKind\<close> does), and a REST call that
  always succeeds.
\<close>

definition string_metadata_metric :: Metric where
  "string_metadata_metric =
     \<lparr>Metric_Name = ''test'',
      Metric_Evaluate = (\<lambda>input.
        (\<lparr>MetricScore_Name = ''test'', MetricScore_Score = 0x3FF0000000000000,
          MetricScore_Reason = '''', MetricScore_Metadata = AnyString ''not a map'',
          MetricScore_Error = ''''\<rparr>, None))\<rparr>"

definition AnnotateSpans_ok :: "SpanAnnotationData list \<Rightarrow> string option" where
  "AnnotateSpans_ok data = None"

section \<open>OpenTelemetry configuration (otel/config.go, otel/options.go)\<close>

definition EnvCollectorEndpoint :: string where
  "EnvCollectorEndpoint = ''PHOENIX_COLLECTOR_ENDPOINT''"
definition EnvClientHeaders :: string where
  "EnvClientHeaders = ''PHOENIX_CLIENT_HEADERS''"
definition EnvOTELEndpoint :: string where
  "EnvOTELEndpoint = ''OTEL_EXPORTER_OTLP_ENDPOINT''"
definition DefaultEndpoint :: string where
  "DefaultEndpoint = ''http://localhost:6006''"
definition DefaultHTTPPath :: string where
  "DefaultHTTPPath = ''/v1/traces''"

definition ProtocolHTTP :: string where "ProtocolHTTP = ''http/protobuf''"
definition ProtocolGRPC :: string where "ProtocolGRPC = ''grpc''"
definition ProtocolInfer :: string where "ProtocolInfer = ''infer''"

text \<open>
  A \<^verbatim>\<open>map[string]string\<close> is an association list with distinct keys; the nil map and
  the empty map are both the empty list (the code only ranges over the map).
\<close>

record otel_Config =
  Endpoint :: string
  otel_SpaceID :: string
  otel_ProjectName :: string
  otel_APIKey :: string
  Headers :: "(string \<times> string) list"
  Protocol :: string
  Batch :: bool
  BatchTimeout :: Duration
  BatchSize :: int
  SetGlobalProvider :: bool
  ServiceName :: string
  ServiceVersion :: string
  Insecure :: bool

text \<open>
  A slice expression \<^verbatim>\<open>s[a:b]\<close> within bounds.  Where the bounds can be wrong the model
  checks them first and panics as Go does.
\<close>

definition substr :: "string \<Rightarrow> nat \<Rightarrow> nat \<Rightarrow> string" where
  "substr s a b = take (b - a) (drop a s)"

definition is_blank :: "char \<Rightarrow> bool" where
  "is_blank c \<longleftrightarrow> c = CHR '' '' \<or> c = CHR 0x09"

function trim_start :: "string \<Rightarrow> nat \<Rightarrow> nat \<Rightarrow> nat" where
  "trim_start s start stop =
     (if start < stop \<and> is_blank (s ! start) then trim_start s (Suc start) stop else start)"
  by pat_completeness auto
termination
  by (relation "measure (\<lambda>(s, start, stop). stop - start)") auto

function trim_stop :: "string \<Rightarrow> nat \<Rightarrow> nat \<Rightarrow> nat" where
  "trim_stop s start stop =
     (if start < stop \<and> is_blank (s ! (stop - 1)) then trim_stop s start (stop - 1) else stop)"
  by pat_completeness auto
termination
  by (relation "measure (\<lambda>(s, start, stop). stop)") auto

definition trim :: "string \<Rightarrow> string" where
  "trim s =
     (let start = trim_start s 0 (length s);
          stop = trim_stop s start (length s)
      in substr s start stop)"

text \<open>
  The run-time panics of this part: a slice expression out of bounds, and \<^verbatim>\<open>make\<close> with
  a capacity out of range.
\<close>

datatype slice_panic = SliceBoundsOutOfRange | MakeSliceCapOutOfRange

text \<open>
  The loop of \<^verbatim>\<open>splitTrim\<close> with its variables \<^verbatim>\<open>i\<close>, \<^verbatim>\<open>start\<close> and \<^verbatim>\<open>result\<close>, and the
  statement after it.  \<^verbatim>\<open>s[start:i]\<close> is out of bounds when \<^verbatim>\<open>start\<close> has moved past
  \<^verbatim>\<open>i\<close>, which overlapping occurrences of a separator of several bytes can cause.
\<close>

function splitTrim_loop ::
  "string \<Rightarrow> string \<Rightarrow> nat \<Rightarrow> nat \<Rightarrow> string list \<Rightarrow> slice_panic + string list" where
  "splitTrim_loop s sep i start result =
     (if i < length s then
        (if i + length sep \<le> length s \<and> substr s i (i + length sep) = sep then
           (if i < start then Inl SliceBoundsOutOfRange
            else
              let part = trim (substr s start i);
                  result = (if part \<noteq> '''' then result @ [part] else result)
              in splitTrim_loop s sep (Suc i) (i + length sep) result)
         else splitTrim_loop s sep (Suc i) start result)
      else
        (if length s < start then Inl SliceBoundsOutOfRange
         else
           let part = trim (substr s start (length s))
           in Inr (if part \<noteq> '''' then result @ [part] else result)))"
  by pat_completeness auto
termination
  by (relation "measure (\<lambda>(s, sep, i, start, result). length s - i)") auto

definition splitTrim :: "string \<Rightarrow> string \<Rightarrow> slice_panic + string list" where
  "splitTrim s sep = splitTrim_loop s sep 0 0 []"

fun parseHeaders_loop ::
  "string list \<Rightarrow> (string \<times> string) list \<Rightarrow> slice_panic + (string \<times> string) list" where
  "parseHeaders_loop [] headers = Inr headers"
| "parseHeaders_loop (part # parts) headers =
     (case splitTrim part ''='' of
        Inl p \<Rightarrow> Inl p
      | Inr kv \<Rightarrow>
          parseHeaders_loop parts
            (if length kv = 2 then AList.update (kv ! 0) (kv ! 1) headers else headers))"

definition parseHeaders :: "string \<Rightarrow> slice_panic + (string \<times> string) list" where
  "parseHeaders s =
     (case splitTrim s '','' of
        Inl p \<Rightarrow> Inl p
      | Inr parts \<Rightarrow> parseHeaders_loop parts [])"

definition getEnvCollectorEndpoint :: "environ \<Rightarrow> string" where
  "getEnvCollectorEndpoint env =
     (if env EnvCollectorEndpoint \<noteq> '''' then env EnvCollectorEndpoint
      else env EnvOTELEndpoint)"

definition DefaultConfig :: "environ \<Rightarrow> slice_panic + otel_Config" where
  "DefaultConfig env =
     (let cfg = \<lparr>Endpoint = DefaultEndpoint, otel_SpaceID = '''',
                 otel_ProjectName = DefaultProjectName, otel_APIKey = '''', Headers = [],
                 Protocol = ProtocolInfer, Batch = False, BatchTimeout = 5 * 1000000000,
                 BatchSize = 512, SetGlobalProvider = True, ServiceName = '''',
                 ServiceVersion = '''', Insecure = False\<rparr>;
          cfg = (if getEnvCollectorEndpoint env \<noteq> ''''
                 then cfg\<lparr>Endpoint := getEnvCollectorEndpoint env\<rparr> else cfg);
          cfg = (if env EnvSpaceID \<noteq> ''''
                 then (let cfg = cfg\<lparr>otel_SpaceID := env EnvSpaceID\<rparr>
                       in if Endpoint cfg = DefaultEndpoint
                          then cfg\<lparr>Endpoint := ''https://app.phoenix.arize.com''\<rparr> else cfg)
                 else cfg);
          cfg = (if env EnvProjectName \<noteq> ''''
                 then cfg\<lparr>otel_ProjectName := env EnvProjectName\<rparr> else cfg);
          cfg = (if env EnvAPIKey \<noteq> '''' then cfg\<lparr>otel_APIKey := env EnvAPIKey\<rparr> else cfg)
      in if env EnvClientHeaders \<noteq> ''''
         then (case parseHeaders (env EnvClientHeaders) of
                 Inl p \<Rightarrow> Inl p
               | Inr headers \<Rightarrow> Inr (cfg\<lparr>Headers := headers\<rparr>))
         else Inr cfg)"

function strip_trailing_slashes :: "string \<Rightarrow> string" where
  "strip_trailing_slashes endpoint =
     (if length endpoint > 0 \<and> endpoint ! (length endpoint - 1) = CHR ''/''
      then strip_trailing_slashes (substr endpoint 0 (length endpoint - 1))
      else endpoint)"
  by pat_completeness auto
termination
  by (relation "measure length") (auto simp: substr_def)

definition EffectiveEndpoint :: "otel_Config \<Rightarrow> string" where
  "EffectiveEndpoint c =
     (if otel_SpaceID c \<noteq> ''''
      then strip_trailing_slashes (Endpoint c) @ ''/s/'' @ otel_SpaceID c
      else Endpoint c)"

datatype otel_Option =
    otel_WithEndpoint string
  | otel_WithSpaceID string
  | otel_WithProjectName string
  | otel_WithAPIKey string
  | otel_WithHeaders "(string \<times> string) list"
  | otel_WithProtocol string
  | otel_WithBatch bool
  | otel_WithBatchTimeout Duration
  | otel_WithBatchSize int
  | otel_WithGlobalProvider bool
  | otel_WithServiceName string
  | otel_WithServiceVersion string
  | otel_WithInsecure bool

fun apply_otel_Option :: "otel_Option \<Rightarrow> otel_Config \<Rightarrow> otel_Config" where
  "apply_otel_Option (otel_WithEndpoint endpoint) c = c\<lparr>Endpoint := endpoint\<rparr>"
| "apply_otel_Option (otel_WithSpaceID spaceID) c = c\<lparr>otel_SpaceID := spaceID\<rparr>"
| "apply_otel_Option (otel_WithProjectName name) c = c\<lparr>otel_ProjectName := name\<rparr>"
| "apply_otel_Option (otel_WithAPIKey key) c = c\<lparr>otel_APIKey := key\<rparr>"
| "apply_otel_Option (otel_WithHeaders headers) c = c\<lparr>Headers := headers\<rparr>"
| "apply_otel_Option (otel_WithProtocol protocol) c = c\<lparr>Protocol := protocol\<rparr>"
| "apply_otel_Option (otel_WithBatch batch) c = c\<lparr>Batch := batch\<rparr>"
| "apply_otel_Option (otel_WithBatchTimeout t) c = c\<lparr>BatchTimeout := t\<rparr>"
| "apply_otel_Option (otel_WithBatchSize n) c = c\<lparr>BatchSize := n\<rparr>"
| "apply_otel_Option (otel_WithGlobalProvider global) c = c\<lparr>SetGlobalProvider := global\<rparr>"
| "apply_otel_Option (otel_WithServiceName name) c = c\<lparr>ServiceName := name\<rparr>"
| "apply_otel_Option (otel_WithServiceVersion version) c = c\<lparr>ServiceVersion := version\<rparr>"
| "apply_otel_Option (otel_WithInsecure insecure) c = c\<lparr>Insecure := insecure\<rparr>"

section \<open>Tracer provider registration (otel/register.go)\<close>

text \<open>
  An OpenTelemetry attribute is a key with a string, integer or float value
  (\<^verbatim>\<open>attribute.String\<close>, \<^verbatim>\<open>attribute.Int\<close>, \<^verbatim>\<open>attribute.Float64\<close>).
\<close>

datatype attr_value = StringValue string | IntValue int | Float64Value float64

type_synonym KeyValue = "string \<times> attr_value"

text \<open>
  What \<^verbatim>\<open>Register\<close> builds from the OpenTelemetry SDK is kept as data: the options
  handed to the OTLP exporter, the span processor, the provider with its options.  The
  SDK calls that can fail or that this repository does not decide are parameters:
  \<open>url_Parse\<close> (\<^verbatim>\<open>net/url\<close>; the record holds the scheme, the results of \<^verbatim>\<open>Hostname()\<close> and
  \<^verbatim>\<open>Port()\<close>, and the path), \<open>otlp_New\<close> (\<^verbatim>\<open>otlptracehttp.New\<close>), \<open>resource_Merge\<close>
  (\<^verbatim>\<open>resource.Merge\<close> of the default resource with a schemaless resource of the given
  attributes), and \<open>NewBatchSpanProcessor\<close> (\<^verbatim>\<open>sdktrace.NewBatchSpanProcessor\<close>), which
  returns the batch span processor for an exporter and a list of options, or panics.
\<close>

record url_URL =
  Scheme :: string
  Hostname :: string
  Port :: string
  Path :: string

datatype otlptracehttp_Option =
    otlp_WithEndpoint string
  | otlp_WithURLPath string
  | otlp_WithInsecure
  | otlp_WithHeaders "(string \<times> string) list"

datatype BatchSpanProcessorOption =
    WithBatchTimeout Duration
  | WithMaxExportBatchSize int

datatype ('e, 'b) SpanProcessor =
    BatchSpanProcessor 'b
  | NewSimpleSpanProcessor 'e

datatype ('e, 'b, 'r) TracerProviderOption =
    WithSpanProcessor "('e, 'b) SpanProcessor"
  | WithResource 'r

datatype ('e, 'b, 'r) sdk_TracerProvider =
    NewTracerProvider "('e, 'b, 'r) TracerProviderOption list"

record ('e, 'b, 'r) TracerProvider =
  sdk_provider :: "('e, 'b, 'r) sdk_TracerProvider"
  TracerProvider_config :: otel_Config

definition HasPrefix :: "string \<Rightarrow> string \<Rightarrow> bool" where
  "HasPrefix s prefix \<longleftrightarrow> length prefix \<le> length s \<and> take (length prefix) s = prefix"

definition createExporter ::
  "(string \<Rightarrow> go_error + url_URL) \<Rightarrow> (otlptracehttp_Option list \<Rightarrow> go_error + 'e) \<Rightarrow>
   otel_Config \<Rightarrow> go_error + 'e" where
  "createExporter url_Parse otlp_New cfg =
     (let endpoint = EffectiveEndpoint cfg;
          endpoint = (if \<not> HasPrefix endpoint ''http://'' \<and> \<not> HasPrefix endpoint ''https://''
                      then ''http://'' @ endpoint else endpoint)
      in case url_Parse endpoint of
           Inl err \<Rightarrow> Inl (Wrapped ''invalid endpoint URL: '' err)
         | Inr parsedURL \<Rightarrow>
             (let host = Hostname parsedURL;
                  port = Port parsedURL;
                  port = (if port = ''''
                          then (if Scheme parsedURL = ''https'' then ''443'' else ''6006'')
                          else port);
                  exporterOpts = [otlp_WithEndpoint (host @ '':'' @ port)];
                  basePath = Path parsedURL;
                  basePath = (if basePath = '''' \<or> basePath = ''/'' then '''' else basePath);
                  path = basePath @ DefaultHTTPPath;
                  exporterOpts = exporterOpts @ [otlp_WithURLPath path];
                  exporterOpts = (if Scheme parsedURL = ''http''
                                  then exporterOpts @ [otlp_WithInsecure] else exporterOpts);
                  headers = foldl (\<lambda>headers (k, v). AList.update k v headers) [] (Headers cfg);
                  headers = (if otel_APIKey cfg \<noteq> ''''
                             then AList.update ''Authorization'' (''Bearer '' @ otel_APIKey cfg) headers
                             else headers);
                  headers = (if otel_ProjectName cfg \<noteq> ''''
                             then AList.update ''x-phoenix-project-name'' (otel_ProjectName cfg) headers
                             else headers);
                  exporterOpts = (if length headers > 0
                                  then exporterOpts @ [otlp_WithHeaders headers]
                                  else exporterOpts)
              in otlp_New exporterOpts))"

definition createResource ::
  "(KeyValue list \<Rightarrow> go_error + 'r) \<Rightarrow> otel_Config \<Rightarrow> go_error + 'r" where
  "createResource resource_Merge cfg =
     (let attrs = [(''openinference.project.name'', StringValue (otel_ProjectName cfg))];
          attrs = (if ServiceName cfg \<noteq> ''''
                   then attrs @ [(''service.name'', StringValue (ServiceName cfg))] else attrs);
          attrs = (if ServiceVersion cfg \<noteq> ''''
                   then attrs @ [(''service.version'', StringValue (ServiceVersion cfg))]
                   else attrs)
      in resource_Merge attrs)"

text \<open>
  \<^verbatim>\<open>Register\<close>.  The process-wide tracer provider of the \<^verbatim>\<open>otel\<close> package is state: the
  list of the providers installed with \<^verbatim>\<open>otel.SetTracerProvider\<close> so far, latest last.
  The call returns the provider or an error, and the state as it leaves it, or it
  panics.
\<close>

definition Register ::
  "(string \<Rightarrow> go_error + url_URL) \<Rightarrow> (otlptracehttp_Option list \<Rightarrow> go_error + 'e) \<Rightarrow>
   (KeyValue list \<Rightarrow> go_error + 'r) \<Rightarrow>
   ('e \<Rightarrow> BatchSpanProcessorOption list \<Rightarrow> slice_panic + 'b) \<Rightarrow>
   environ \<Rightarrow> otel_Option list \<Rightarrow> ('e, 'b, 'r) sdk_TracerProvider list \<Rightarrow>
   slice_panic +
     ((go_error + ('e, 'b, 'r) TracerProvider) \<times> ('e, 'b, 'r) sdk_TracerProvider list)" where
  "Register url_Parse otlp_New resource_Merge NewBatchSpanProcessor env opts global =
     (case DefaultConfig env of
        Inl p \<Rightarrow> Inl p
      | Inr cfg \<Rightarrow>
          (let cfg = foldl (\<lambda>cfg opt. apply_otel_Option opt cfg) cfg opts
           in case createExporter url_Parse otlp_New cfg of
                Inl err \<Rightarrow> Inr (Inl (Wrapped ''failed to create exporter: '' err), global)
              | Inr exporter \<Rightarrow>
                  (case createResource resource_Merge cfg of
                     Inl err \<Rightarrow> Inr (Inl (Wrapped ''failed to create resource: '' err), global)
                   | Inr res \<Rightarrow>
                       (case (if Batch cfg
                              then (case NewBatchSpanProcessor exporter
                                           [WithBatchTimeout (BatchTimeout cfg),
                                            WithMaxExportBatchSize (BatchSize cfg)] of
                                      Inl p \<Rightarrow> Inl p
                                    | Inr b \<Rightarrow> Inr (BatchSpanProcessor b))
                              else Inr (NewSimpleSpanProcessor exporter)) of
                          Inl p \<Rightarrow> Inl p
                        | Inr spanProcessor \<Rightarrow>
                            (let tp = NewTracerProvider
                                        [WithSpanProcessor spanProcessor, WithResource res];
                                 global = (if SetGlobalProvider cfg then global @ [tp]
                                           else global)
                             in Inr (Inr \<lparr>sdk_provider = tp, TracerProvider_config = cfg\<rparr>,
                                     global))))))"

text \<open>
  Example parameters: a URL parser that knows the local default endpoint, an exporter
  constructor that keeps its options, and a resource merge that keeps the attributes.
\<close>

definition url_Parse_local :: "string \<Rightarrow> go_error + url_URL" where
  "url_Parse_local s =
     (if s = ''http://localhost:6006''
      then Inr \<lparr>Scheme = ''http'', Hostname = ''localhost'', Port = ''6006'', Path = ''''\<rparr>
      else Inl (OtherError ''parse error''))"

definition otlp_New_ok :: "otlptracehttp_Option list \<Rightarrow> go_error + otlptracehttp_Option list" where
  "otlp_New_ok exporterOpts = Inr exporterOpts"

definition resource_Merge_ok :: "KeyValue list \<Rightarrow> go_error + KeyValue list" where
  "resource_Merge_ok attrs = Inr attrs"

text \<open>
  The batch span processor constructor of the OpenTelemetry SDK, with none of the
  \<^verbatim>\<open>OTEL_BSP_\<close> environment variables set: it applies the options to its defaults (a
  queue of 2048 spans, a delay of 5 seconds, an export timeout of 30 seconds, batches of
  512 spans) and allocates the batch with \<^verbatim>\<open>make([]ReadOnlySpan, 0, MaxExportBatchSize)\<close>.
  \<^verbatim>\<open>make\<close> panics for a negative capacity and for one above what the runtime grants,
  the parameter \<open>max_cap\<close>; on a 64-bit platform that is at most \<open>2 ^ 44\<close> values of
  16 bytes.
\<close>

record BatchSpanProcessorOptions =
  bsp_MaxQueueSize :: int
  bsp_BatchTimeout :: Duration
  bsp_ExportTimeout :: Duration
  bsp_MaxExportBatchSize :: int

record 'e batchSpanProcessor =
  bsp_exporter :: 'e
  bsp_options :: BatchSpanProcessorOptions

fun apply_BatchSpanProcessorOption ::
  "BatchSpanProcessorOption \<Rightarrow> BatchSpanProcessorOptions \<Rightarrow> BatchSpanProcessorOptions" where
  "apply_BatchSpanProcessorOption (WithBatchTimeout delay) o' = o'\<lparr>bsp_BatchTimeout := delay\<rparr>"
| "apply_BatchSpanProcessorOption (WithMaxExportBatchSize n) o' =
     o'\<lparr>bsp_MaxExportBatchSize := n\<rparr>"

definition sdk_NewBatchSpanProcessor ::
  "int \<Rightarrow> 'e \<Rightarrow> BatchSpanProcessorOption list \<Rightarrow> slice_panic + 'e batchSpanProcessor" where
  "sdk_NewBatchSpanProcessor max_cap exporter options =
     (let o' = foldl (\<lambda>o' opt. apply_BatchSpanProcessorOption opt o')
                 \<lparr>bsp_MaxQueueSize = 2048, bsp_BatchTimeout = 5000 * 1000000,
                  bsp_ExportTimeout = 30000 * 1000000, bsp_MaxExportBatchSize = 512\<rparr>
                 options
      in if bsp_MaxExportBatchSize o' < 0 \<or> max_cap < bsp_MaxExportBatchSize o'
         then Inl MakeSliceCapOutOfRange
         else Inr \<lparr>bsp_exporter = exporter, bsp_options = o'\<rparr>)"

definition max_cap_64 :: int where
  "max_cap_64 = 2 ^ 44"

section \<open>Trace and span adapter (llmops/provider.go, llmops/span.go, llmops/trace.go)\<close>

subsection \<open>The OpenTelemetry interface the adapter is written against\<close>

text \<open>
  A span context carries a 16-byte trace identifier and an 8-byte span identifier;
  \<^verbatim>\<open>String()\<close> of either is its lower-case hexadecimal form, two digits per byte.
\<close>

record SpanContext =
  sc_TraceID :: "128 word"
  sc_SpanID :: "64 word"

definition hex_digit :: "nat \<Rightarrow> char" where
  "hex_digit n = ''0123456789abcdef'' ! (n mod 16)"

definition hex_String :: "nat \<Rightarrow> 'a::len word \<Rightarrow> string" where
  "hex_String digits w =
     map (\<lambda>k. hex_digit (unat (drop_bit (4 * k) w AND 15))) (rev [0..<digits])"

definition TraceID_String :: "128 word \<Rightarrow> string" where
  "TraceID_String tid = hex_String 32 tid"

definition SpanID_String :: "64 word \<Rightarrow> string" where
  "SpanID_String sid = hex_String 16 sid"

text \<open>
  An OpenTelemetry span is an object: \<open>span_ref\<close> is its identity, its span context
  never changes.  What the adapter does to spans is recorded in the world: the calls
  of \<^verbatim>\<open>SetAttributes\<close> and \<^verbatim>\<open>AddEvent\<close> made so far, each with the span it was made on.
\<close>

record otel_Span =
  span_ref :: nat
  spanContext :: SpanContext

datatype otel_call =
    SetAttributes "KeyValue list"
  | AddEvent string "KeyValue list"

record world =
  next_ref :: nat
  calls :: "(nat \<times> otel_call) list"

definition otel_SetAttributes :: "world \<Rightarrow> otel_Span \<Rightarrow> KeyValue list \<Rightarrow> world" where
  "otel_SetAttributes w sp attrs = w\<lparr>calls := calls w @ [(span_ref sp, SetAttributes attrs)]\<rparr>"

definition otel_AddEvent :: "world \<Rightarrow> otel_Span \<Rightarrow> string \<Rightarrow> KeyValue list \<Rightarrow> world" where
  "otel_AddEvent w sp name attrs = w\<lparr>calls := calls w @ [(span_ref sp, AddEvent name attrs)]\<rparr>"

subsection \<open>The types of the llmops interface module\<close>

text \<open>
  \<^verbatim>\<open>llmops.SpanType\<close> is a string type; its named constants are kept as constructors,
  the empty string is \<open>SpanTypeUnset\<close>.  The option structs carry the fields the adapter
  reads; the adapter gets them from \<^verbatim>\<open>llmops.ApplySpanOptions\<close> and
  \<^verbatim>\<open>llmops.ApplyTraceOptions\<close>, so the functions below take the struct.
\<close>

datatype SpanType =
    SpanTypeUnset
  | SpanTypeLLM
  | SpanTypeTool
  | SpanTypeAgent
  | SpanTypeChain
  | SpanTypeRetrieval
  | SpanTypeGuardrail
  | SpanTypeOther string

record TokenUsage =
  PromptTokens :: int
  CompletionTokens :: int
  TotalTokens :: int

record SpanOptions =
  SpanOptions_Type :: SpanType
  SpanOptions_Input :: any_value
  SpanOptions_Metadata :: "(string \<times> any_value) list option"
  SpanOptions_Tags :: "string list"
  SpanOptions_Model :: string
  SpanOptions_Provider :: string
  SpanOptions_Usage :: "TokenUsage option"

record TraceOptions =
  TraceOptions_Input :: any_value
  TraceOptions_Metadata :: "(string \<times> any_value) list option"
  TraceOptions_Tags :: "string list"
  TraceOptions_ThreadID :: string

record FeedbackOptions =
  FeedbackOptions_Reason :: string
  FeedbackOptions_Category :: string
  FeedbackOptions_Source :: string

record FeedbackScoreOpts =
  FeedbackScoreOpts_Name :: string
  FeedbackScoreOpts_Score :: float64
  FeedbackScoreOpts_Reason :: string
  FeedbackScoreOpts_SpanID :: string
  FeedbackScoreOpts_TraceID :: string
  FeedbackScoreOpts_Source :: string

subsection \<open>Wrappers and the request-scoped context\<close>

record Provider =
  projectName :: string
  serviceName :: string
  batchEnabled :: bool

record spanWrapper =
  spanWrapper_provider :: Provider
  spanWrapper_otelSpan :: otel_Span
  spanWrapper_traceID :: string
  spanWrapper_parentSpanID :: string
  spanWrapper_name :: string
  spanWrapper_spanType :: SpanType
  spanWrapper_startTime :: Time
  spanWrapper_endTime :: "Time option"

record traceWrapper =
  traceWrapper_provider :: Provider
  traceWrapper_otelSpan :: otel_Span
  traceWrapper_name :: string
  traceWrapper_startTime :: Time
  traceWrapper_endTime :: "Time option"

text \<open>
  A \<^verbatim>\<open>context.Context\<close> is the stack of the values stored with \<^verbatim>\<open>context.WithValue\<close>,
  latest first; \<^verbatim>\<open>Value\<close> finds the latest value stored under a key.  The keys are the
  two unexported key types of the adapter, the key under which the OpenTelemetry API
  keeps the current span, and any other key.
\<close>

datatype context_key =
    traceContextKey
  | spanContextKey
  | currentSpanKey
  | otherKey nat

datatype context_value =
    TraceValue traceWrapper
  | SpanValue spanWrapper
  | OtelSpanValue otel_Span
  | OtherValue any_value

type_synonym Context = "(context_key \<times> context_value) list"

definition Background :: Context where
  "Background = []"

definition WithValue :: "Context \<Rightarrow> context_key \<Rightarrow> context_value \<Rightarrow> Context" where
  "WithValue ctx key val = (key, val) # ctx"

definition Value :: "Context \<Rightarrow> context_key \<Rightarrow> context_value option" where
  "Value ctx key = map_of ctx key"

definition contextWithTrace :: "Context \<Rightarrow> traceWrapper \<Rightarrow> Context" where
  "contextWithTrace ctx t = WithValue ctx traceContextKey (TraceValue t)"

definition traceFromContext :: "Context \<Rightarrow> traceWrapper option" where
  "traceFromContext ctx =
     (case Value ctx traceContextKey of Some (TraceValue t) \<Rightarrow> Some t | _ \<Rightarrow> None)"

definition contextWithSpan :: "Context \<Rightarrow> spanWrapper \<Rightarrow> Context" where
  "contextWithSpan ctx s = WithValue ctx spanContextKey (SpanValue s)"

definition spanFromContext :: "Context \<Rightarrow> spanWrapper option" where
  "spanFromContext ctx =
     (case Value ctx spanContextKey of Some (SpanValue s) \<Rightarrow> Some s | _ \<Rightarrow> None)"

text \<open>
  \<^verbatim>\<open>Tracer.Start\<close> of the OpenTelemetry SDK, which \<^verbatim>\<open>Register\<close> installs: the new span
  takes the trace identifier of the span in the context when that identifier is valid
  (not all zero), and a fresh one otherwise; its span identifier is fresh; the returned
  context holds the new span.  The identifiers the generator hands out for the call are
  the argument \<open>ids\<close>; the generator of the SDK hands out valid ones.
\<close>

definition SpanContextFromContext :: "Context \<Rightarrow> SpanContext" where
  "SpanContextFromContext ctx =
     (case Value ctx currentSpanKey of
        Some (OtelSpanValue sp) \<Rightarrow> spanContext sp
      | _ \<Rightarrow> \<lparr>sc_TraceID = 0, sc_SpanID = 0\<rparr>)"


definition tracer_Start ::
  "world \<Rightarrow> Context \<Rightarrow> string \<Rightarrow> 128 word \<times> 64 word \<Rightarrow> world \<times> Context \<times> otel_Span" where
  "tracer_Start w ctx name ids =
     (let psc = SpanContextFromContext ctx;
          tid = (if sc_TraceID psc \<noteq> 0 then sc_TraceID psc else fst ids);
          sp = \<lparr>span_ref = next_ref w,
                spanContext = \<lparr>sc_TraceID = tid, sc_SpanID = snd ids\<rparr>\<rparr>
      in (w\<lparr>next_ref := Suc (next_ref w)\<rparr>,
          WithValue ctx currentSpanKey (OtelSpanValue sp), sp))"

subsection \<open>Attribute helpers (otel/semconv.go) and serialisation\<close>

definition SpanKindLLM :: string where "SpanKindLLM = ''LLM''"
definition SpanKindChain :: string where "SpanKindChain = ''CHAIN''"
definition SpanKindTool :: string where "SpanKindTool = ''TOOL''"
definition SpanKindAgent :: string where "SpanKindAgent = ''AGENT''"
definition SpanKindRetriever :: string where "SpanKindRetriever = ''RETRIEVER''"
definition SpanKindGuardrail :: string where "SpanKindGuardrail = ''GUARDRAIL''"

definition WithSpanKind :: "string \<Rightarrow> KeyValue" where
  "WithSpanKind kind = (''openinference.span.kind'', StringValue kind)"
definition WithInput :: "string \<Rightarrow> KeyValue" where
  "WithInput input = (''input.value'', StringValue input)"
definition WithModelName :: "string \<Rightarrow> KeyValue" where
  "WithModelName model = (''llm.model_name'', StringValue model)"
definition WithLLMProvider :: "string \<Rightarrow> KeyValue" where
  "WithLLMProvider provider = (''llm.provider'', StringValue provider)"
definition WithTokenCounts :: "int \<Rightarrow> int \<Rightarrow> int \<Rightarrow> KeyValue list" where
  "WithTokenCounts prompt completion tot =
     [(''llm.token_count.prompt'', IntValue prompt),
      (''llm.token_count.completion'', IntValue completion),
      (''llm.token_count.total'', IntValue tot)]"
definition WithSessionID :: "string \<Rightarrow> KeyValue" where
  "WithSessionID id' = (''session.id'', StringValue id')"
definition WithMetadata :: "string \<Rightarrow> KeyValue" where
  "WithMetadata metadata = (''metadata'', StringValue metadata)"
definition TagsKey :: string where
  "TagsKey = ''tag.tags''"

text \<open>
  \<^verbatim>\<open>json.Marshal\<close> is the parameter \<open>json\<close> of the functions that serialise: it returns
  the encoding, or \<open>None\<close> when it fails.
\<close>

type_synonym marshal = "any_value \<Rightarrow> string option"

definition toString :: "marshal \<Rightarrow> any_value \<Rightarrow> string" where
  "toString json v =
     (case v of
        AnyNil \<Rightarrow> ''''
      | AnyString val \<Rightarrow> val
      | AnyBytes val \<Rightarrow> val
      | _ \<Rightarrow> (case json v of Some data \<Rightarrow> data | None \<Rightarrow> ''''))"

definition mapSpanTypeToOpenInference :: "SpanType \<Rightarrow> string" where
  "mapSpanTypeToOpenInference t =
     (case t of
        SpanTypeLLM \<Rightarrow> SpanKindLLM
      | SpanTypeTool \<Rightarrow> SpanKindTool
      | SpanTypeAgent \<Rightarrow> SpanKindAgent
      | SpanTypeChain \<Rightarrow> SpanKindChain
      | SpanTypeRetrieval \<Rightarrow> SpanKindRetriever
      | SpanTypeGuardrail \<Rightarrow> SpanKindGuardrail
      | _ \<Rightarrow> SpanKindChain)"

definition buildFeedbackAttrs :: "string \<Rightarrow> float64 \<Rightarrow> FeedbackOptions \<Rightarrow> KeyValue list" where
  "buildFeedbackAttrs name score cfg =
     (let attrs = [(''feedback.name'', StringValue name),
                   (''feedback.score'', Float64Value score)];
          attrs = (if FeedbackOptions_Reason cfg \<noteq> ''''
                   then attrs @ [(''feedback.reason'', StringValue (FeedbackOptions_Reason cfg))]
                   else attrs);
          attrs = (if FeedbackOptions_Category cfg \<noteq> ''''
                   then attrs @ [(''feedback.category'', StringValue (FeedbackOptions_Category cfg))]
                   else attrs);
          attrs = (if FeedbackOptions_Source cfg \<noteq> ''''
                   then attrs @ [(''feedback.source'', StringValue (FeedbackOptions_Source cfg))]
                   else attrs)
      in attrs)"

definition zero_FeedbackOptions :: FeedbackOptions where
  "zero_FeedbackOptions =
     \<lparr>FeedbackOptions_Reason = '''', FeedbackOptions_Category = '''',
      FeedbackOptions_Source = ''''\<rparr>"

subsection \<open>Span wrapper (llmops/span.go)\<close>

text \<open>
  The setters return nil always; the model returns the world they leave.  The mutex of
  a wrapper serialises the calls and has no other effect.
\<close>

definition spanWrapper_SetInput :: "marshal \<Rightarrow> world \<Rightarrow> spanWrapper \<Rightarrow> any_value \<Rightarrow> world" where
  "spanWrapper_SetInput json w s input =
     otel_SetAttributes w (spanWrapper_otelSpan s) [WithInput (toString json input)]"

definition spanWrapper_SetMetadata ::
  "marshal \<Rightarrow> world \<Rightarrow> spanWrapper \<Rightarrow> (string \<times> any_value) list \<Rightarrow> world" where
  "spanWrapper_SetMetadata json w s metadata =
     (case json (AnyMap metadata) of
        Some data \<Rightarrow> otel_SetAttributes w (spanWrapper_otelSpan s) [WithMetadata data]
      | None \<Rightarrow> w)"

definition spanWrapper_AddTag :: "world \<Rightarrow> spanWrapper \<Rightarrow> string \<Rightarrow> world" where
  "spanWrapper_AddTag w s tag =
     otel_SetAttributes w (spanWrapper_otelSpan s) [(TagsKey, StringValue tag)]"

definition spanWrapper_SetModel :: "world \<Rightarrow> spanWrapper \<Rightarrow> string \<Rightarrow> world" where
  "spanWrapper_SetModel w s model =
     otel_SetAttributes w (spanWrapper_otelSpan s) [WithModelName model]"

definition spanWrapper_SetProvider :: "world \<Rightarrow> spanWrapper \<Rightarrow> string \<Rightarrow> world" where
  "spanWrapper_SetProvider w s provider =
     otel_SetAttributes w (spanWrapper_otelSpan s) [WithLLMProvider provider]"

definition spanWrapper_SetUsage :: "world \<Rightarrow> spanWrapper \<Rightarrow> TokenUsage \<Rightarrow> world" where
  "spanWrapper_SetUsage w s usage =
     otel_SetAttributes w (spanWrapper_otelSpan s)
       (WithTokenCounts (PromptTokens usage) (CompletionTokens usage) (TotalTokens usage))"

definition newSpan ::
  "marshal \<Rightarrow> world \<Rightarrow> Provider \<Rightarrow> string \<Rightarrow> otel_Span \<Rightarrow> string \<Rightarrow> string \<Rightarrow>
   SpanOptions \<Rightarrow> Time \<Rightarrow> world \<times> spanWrapper" where
  "newSpan json w provider name otelSpan traceID parentSpanID cfg now =
     (let s = \<lparr>spanWrapper_provider = provider, spanWrapper_otelSpan = otelSpan,
               spanWrapper_traceID = traceID, spanWrapper_parentSpanID = parentSpanID,
               spanWrapper_name = name, spanWrapper_spanType = SpanOptions_Type cfg,
               spanWrapper_startTime = now, spanWrapper_endTime = None\<rparr>;
          w = (if SpanOptions_Type cfg \<noteq> SpanTypeUnset
               then otel_SetAttributes w otelSpan
                      [WithSpanKind (mapSpanTypeToOpenInference (SpanOptions_Type cfg))]
               else w);
          w = (if SpanOptions_Input cfg \<noteq> AnyNil
               then spanWrapper_SetInput json w s (SpanOptions_Input cfg) else w);
          w = (case SpanOptions_Metadata cfg of
                 Some metadata \<Rightarrow> spanWrapper_SetMetadata json w s metadata
               | None \<Rightarrow> w);
          w = (if length (SpanOptions_Tags cfg) > 0
               then foldl (\<lambda>w tag. spanWrapper_AddTag w s tag) w (SpanOptions_Tags cfg)
               else w);
          w = (if SpanOptions_Model cfg \<noteq> ''''
               then spanWrapper_SetModel w s (SpanOptions_Model cfg) else w);
          w = (if SpanOptions_Provider cfg \<noteq> ''''
               then spanWrapper_SetProvider w s (SpanOptions_Provider cfg) else w);
          w = (case SpanOptions_Usage cfg of
                 Some usage \<Rightarrow> spanWrapper_SetUsage w s usage
               | None \<Rightarrow> w)
      in (w, s))"

definition spanWrapper_ID :: "spanWrapper \<Rightarrow> string" where
  "spanWrapper_ID s = SpanID_String (sc_SpanID (spanContext (spanWrapper_otelSpan s)))"

definition spanWrapper_TraceID :: "spanWrapper \<Rightarrow> string" where
  "spanWrapper_TraceID s =
     (if spanWrapper_traceID s = ''''
      then TraceID_String (sc_TraceID (spanContext (spanWrapper_otelSpan s)))
      else spanWrapper_traceID s)"

definition spanWrapper_ParentSpanID :: "spanWrapper \<Rightarrow> string" where
  "spanWrapper_ParentSpanID s = spanWrapper_parentSpanID s"


text \<open>
  A \<^verbatim>\<open>llmops.FeedbackOption\<close> is a closure over \<^verbatim>\<open>*llmops.FeedbackOptions\<close>, here a
  function on the struct.
\<close>

definition spanWrapper_AddFeedbackScore ::
  "world \<Rightarrow> spanWrapper \<Rightarrow> Context \<Rightarrow> string \<Rightarrow> float64 \<Rightarrow>
   (FeedbackOptions \<Rightarrow> FeedbackOptions) list \<Rightarrow> world \<times> go_error option" where
  "spanWrapper_AddFeedbackScore w s ctx name score opts =
     (let cfg = foldl (\<lambda>cfg opt. opt cfg) zero_FeedbackOptions opts;
          attrs = buildFeedbackAttrs name score cfg
      in (otel_AddEvent w (spanWrapper_otelSpan s) ''feedback'' attrs, None))"

subsection \<open>Trace wrapper (llmops/trace.go)\<close>

definition traceWrapper_SetInput :: "marshal \<Rightarrow> world \<Rightarrow> traceWrapper \<Rightarrow> any_value \<Rightarrow> world" where
  "traceWrapper_SetInput json w t input =
     otel_SetAttributes w (traceWrapper_otelSpan t) [WithInput (toString json input)]"

definition traceWrapper_SetMetadata ::
  "marshal \<Rightarrow> world \<Rightarrow> traceWrapper \<Rightarrow> (string \<times> any_value) list \<Rightarrow> world" where
  "traceWrapper_SetMetadata json w t metadata =
     (case json (AnyMap metadata) of
        Some data \<Rightarrow> otel_SetAttributes w (traceWrapper_otelSpan t) [WithMetadata data]
      | None \<Rightarrow> w)"

definition traceWrapper_AddTag :: "world \<Rightarrow> traceWrapper \<Rightarrow> string \<Rightarrow> world" where
  "traceWrapper_AddTag w t tag =
     otel_SetAttributes w (traceWrapper_otelSpan t) [(TagsKey, StringValue tag)]"

definition newTrace ::
  "marshal \<Rightarrow> world \<Rightarrow> Provider \<Rightarrow> string \<Rightarrow> otel_Span \<Rightarrow> TraceOptions \<Rightarrow> Time \<Rightarrow>
   world \<times> traceWrapper" where
  "newTrace json w provider name otelSpan cfg now =
     (let t = \<lparr>traceWrapper_provider = provider, traceWrapper_otelSpan = otelSpan,
               traceWrapper_name = name, traceWrapper_startTime = now,
               traceWrapper_endTime = None\<rparr>;
          w = (if TraceOptions_Input cfg \<noteq> AnyNil
               then traceWrapper_SetInput json w t (TraceOptions_Input cfg) else w);
          w = (case TraceOptions_Metadata cfg of
                 Some metadata \<Rightarrow> traceWrapper_SetMetadata json w t metadata
               | None \<Rightarrow> w);
          w = (if length (TraceOptions_Tags cfg) > 0
               then foldl (\<lambda>w tag. traceWrapper_AddTag w t tag) w (TraceOptions_Tags cfg)
               else w);
          w = (if TraceOptions_ThreadID cfg \<noteq> ''''
               then otel_SetAttributes w (traceWrapper_otelSpan t)
                      [WithSessionID (TraceOptions_ThreadID cfg)]
               else w)
      in (w, t))"

definition traceWrapper_ID :: "traceWrapper \<Rightarrow> string" where
  "traceWrapper_ID t = TraceID_String (sc_TraceID (spanContext (traceWrapper_otelSpan t)))"


definition traceWrapper_AddFeedbackScore ::
  "world \<Rightarrow> traceWrapper \<Rightarrow> Context \<Rightarrow> string \<Rightarrow> float64 \<Rightarrow>
   (FeedbackOptions \<Rightarrow> FeedbackOptions) list \<Rightarrow> world \<times> go_error option" where
  "traceWrapper_AddFeedbackScore w t ctx name score opts =
     (let cfg = foldl (\<lambda>cfg opt. opt cfg) zero_FeedbackOptions opts;
          attrs = buildFeedbackAttrs name score cfg
      in (otel_AddEvent w (traceWrapper_otelSpan t) ''feedback'' attrs, None))"

subsection \<open>Provider (llmops/provider.go)\<close>

definition Provider_StartTrace ::
  "marshal \<Rightarrow> Provider \<Rightarrow> world \<Rightarrow> Context \<Rightarrow> string \<Rightarrow> TraceOptions \<Rightarrow> Time \<Rightarrow>
   128 word \<times> 64 word \<Rightarrow> world \<times> Context \<times> traceWrapper \<times> go_error option" where
  "Provider_StartTrace json p w ctx name cfg now ids =
     (let (w, ctx, otelSpan) = tracer_Start w ctx name ids;
          (w, t) = newTrace json w p name otelSpan cfg now;
          ctx = contextWithTrace ctx t
      in (w, ctx, t, None))"

definition Provider_StartSpan ::
  "marshal \<Rightarrow> Provider \<Rightarrow> world \<Rightarrow> Context \<Rightarrow> string \<Rightarrow> SpanOptions \<Rightarrow> Time \<Rightarrow>
   128 word \<times> 64 word \<Rightarrow> world \<times> Context \<times> spanWrapper \<times> go_error option" where
  "Provider_StartSpan json p w ctx name cfg now ids =
     (let parentTraceID = (case traceFromContext ctx of
                             Some t \<Rightarrow> traceWrapper_ID t
                           | None \<Rightarrow> '''');
          (parentSpanID, parentTraceID) =
             (case spanFromContext ctx of
                Some s \<Rightarrow> (spanWrapper_ID s,
                           if parentTraceID = '''' then spanWrapper_TraceID s
                           else parentTraceID)
              | None \<Rightarrow> ('''', parentTraceID));
          (w, ctx, otelSpan) = tracer_Start w ctx name ids;
          (w, s) = newSpan json w p name otelSpan parentTraceID parentSpanID cfg now;
          ctx = contextWithSpan ctx s
      in (w, ctx, s, None))"

definition Provider_TraceFromContext :: "Provider \<Rightarrow> Context \<Rightarrow> traceWrapper option \<times> bool" where
  "Provider_TraceFromContext p ctx =
     (case traceFromContext ctx of None \<Rightarrow> (None, False) | Some t \<Rightarrow> (Some t, True))"

definition Provider_SpanFromContext :: "Provider \<Rightarrow> Context \<Rightarrow> spanWrapper option \<times> bool" where
  "Provider_SpanFromContext p ctx =
     (case spanFromContext ctx of None \<Rightarrow> (None, False) | Some s \<Rightarrow> (Some s, True))"

definition Provider_AddFeedbackScore ::
  "Provider \<Rightarrow> world \<Rightarrow> Context \<Rightarrow> FeedbackScoreOpts \<Rightarrow> world \<times> go_error option" where
  "Provider_AddFeedbackScore p w ctx opts =
     (case spanFromContext ctx of
        Some s \<Rightarrow> spanWrapper_AddFeedbackScore w s ctx
                    (FeedbackScoreOpts_Name opts) (FeedbackScoreOpts_Score opts) []
      | None \<Rightarrow>
          (case traceFromContext ctx of
             Some t \<Rightarrow> traceWrapper_AddFeedbackScore w t ctx
                         (FeedbackScoreOpts_Name opts) (FeedbackScoreOpts_Score opts) []
           | None \<Rightarrow> (w, Some (LLMOps ErrNoActiveTrace))))"




text \<open>
  Example inputs: a serialiser, a provider, the world before any span was started,
  empty option structs; then a trace started on the background context, a second
  trace started inside the first, and a span started inside the second.
\<close>

definition example_json :: marshal where
  "example_json v = Some ''{}''"

definition example_provider :: Provider where
  "example_provider = \<lparr>projectName = ''demo'', serviceName = ''demo'', batchEnabled = True\<rparr>"

definition initial_world :: world where
  "initial_world = \<lparr>next_ref = 0, calls = []\<rparr>"

definition no_SpanOptions :: SpanOptions where
  "no_SpanOptions =
     \<lparr>SpanOptions_Type = SpanTypeUnset, SpanOptions_Input = AnyNil,
      SpanOptions_Metadata = None, SpanOptions_Tags = [], SpanOptions_Model = '''',
      SpanOptions_Provider = '''', SpanOptions_Usage = None\<rparr>"

definition no_TraceOptions :: TraceOptions where
  "no_TraceOptions =
     \<lparr>TraceOptions_Input = AnyNil, TraceOptions_Metadata = None, TraceOptions_Tags = [],
      TraceOptions_ThreadID = ''''\<rparr>"

definition outer_trace_start :: "world \<times> Context \<times> traceWrapper \<times> go_error option" where
  "outer_trace_start =
     Provider_StartTrace example_json example_provider initial_world Background
       ''request'' no_TraceOptions 100 (5, 6)"

definition inner_trace_start :: "world \<times> Context \<times> traceWrapper \<times> go_error option" where
  "inner_trace_start =
     Provider_StartTrace example_json example_provider (fst outer_trace_start)
       (fst (snd outer_trace_start)) ''step'' no_TraceOptions 101 (7, 8)"

definition inner_span_start :: "world \<times> Context \<times> spanWrapper \<times> go_error option" where
  "inner_span_start =
     Provider_StartSpan example_json example_provider (fst inner_trace_start)
       (fst (snd inner_trace_start)) ''llm-call'' no_SpanOptions 102 (9, 10)"

definition example_feedback :: FeedbackScoreOpts where
  "example_feedback =
     \<lparr>FeedbackScoreOpts_Name = ''quality'', FeedbackScoreOpts_Score = 0x3FEE666666666666,
      FeedbackScoreOpts_Reason = ''test feedback'', FeedbackScoreOpts_SpanID = '''',
      FeedbackScoreOpts_TraceID = '''', FeedbackScoreOpts_Source = ''human''\<rparr>"

definition child_span_start :: "world \<times> Context \<times> spanWrapper \<times> go_error option" where
  "child_span_start =
     Provider_StartSpan example_json example_provider (fst inner_span_start)
       (fst (snd inner_span_start)) ''tool-call'' no_SpanOptions 103 (11, 12)"





section \<open>Properties\<close>

lemma TrimSuffix_slash: "TrimSuffix s ''/'' = drop_one_trailing_slash s"
proof (cases s rule: rev_cases)
  case Nil
  then show ?thesis by (simp add: TrimSuffix_def HasSuffix_def drop_one_trailing_slash_def)
next
  case (snoc ys y)
  then show ?thesis by (auto simp: TrimSuffix_def HasSuffix_def drop_one_trailing_slash_def)
qed

lemma Validate_ok:
  "URL c \<noteq> '''' \<Longrightarrow>
   Validate c = (None, c\<lparr>URL := drop_one_trailing_slash (URL c) @
                          (if SpaceID c = '''' then '''' else ''/s/'' @ SpaceID c)\<rparr>)"
  by (simp add: Validate_def Let_def TrimSuffix_slash)

lemma Validate_err: "URL c = '''' \<Longrightarrow> Validate c = (Some (Sentinel ErrMissingURL), c)"
  by (simp add: Validate_def)

text \<open>
  C8.  \<^verbatim>\<open>Config.Validate\<close> returns \<^verbatim>\<open>ErrMissingURL\<close> exactly when the URL is empty and
  then leaves the configuration as it was; otherwise it returns nil and only rewrites
  the URL: one trailing slash is removed if there is one, and \<^verbatim>\<open>"/s/" + SpaceID\<close> is
  appended when the space identifier is non-empty.  With a non-empty space identifier a
  second call succeeds again and appends the suffix once more.
\<close>

theorem Validate_spec:
  "(fst (Validate c) = Some (Sentinel ErrMissingURL) \<longleftrightarrow> URL c = '''')
   \<and> (fst (Validate c) = None \<longleftrightarrow> URL c \<noteq> '''')
   \<and> (URL c = '''' \<longrightarrow> snd (Validate c) = c)
   \<and> (URL c \<noteq> '''' \<longrightarrow>
        snd (Validate c) =
          c\<lparr>URL := drop_one_trailing_slash (URL c) @
                     (if SpaceID c = '''' then '''' else ''/s/'' @ SpaceID c)\<rparr>)
   \<and> (URL c \<noteq> '''' \<and> SpaceID c \<noteq> '''' \<longrightarrow>
        (let c1 = snd (Validate c) in
           fst (Validate c1) = None \<and>
           snd (Validate c1) =
             c1\<lparr>URL := drop_one_trailing_slash (URL c1) @ ''/s/'' @ SpaceID c\<rparr>))"
proof -
  have a: "fst (Validate c) = Some (Sentinel ErrMissingURL) \<longleftrightarrow> URL c = ''''"
    by (simp add: Validate_def Let_def)
  have b: "fst (Validate c) = None \<longleftrightarrow> URL c \<noteq> ''''"
    by (simp add: Validate_def Let_def)
  have c: "URL c = '''' \<longrightarrow> snd (Validate c) = c"
    by (simp add: Validate_err)
  have d: "URL c \<noteq> '''' \<longrightarrow>
        snd (Validate c) =
          c\<lparr>URL := drop_one_trailing_slash (URL c) @
                     (if SpaceID c = '''' then '''' else ''/s/'' @ SpaceID c)\<rparr>"
    by (simp add: Validate_ok)
  have e: "URL c \<noteq> '''' \<and> SpaceID c \<noteq> '''' \<longrightarrow>
        (let c1 = snd (Validate c) in
           fst (Validate c1) = None \<and>
           snd (Validate c1) =
             c1\<lparr>URL := drop_one_trailing_slash (URL c1) @ ''/s/'' @ SpaceID c\<rparr>)"
  proof
    assume h: "URL c \<noteq> '''' \<and> SpaceID c \<noteq> ''''"
    define c1 where "c1 = snd (Validate c)"
    have u1: "URL c1 \<noteq> ''''" and s1: "SpaceID c1 = SpaceID c"
      using h by (simp_all add: c1_def Validate_ok)
    have "Validate c1 = (None, c1\<lparr>URL := drop_one_trailing_slash (URL c1) @ ''/s/'' @ SpaceID c\<rparr>)"
      using Validate_ok [OF u1] h s1 by simp
    then show "let c1 = snd (Validate c) in
           fst (Validate c1) = None \<and>
           snd (Validate c1) =
             c1\<lparr>URL := drop_one_trailing_slash (URL c1) @ ''/s/'' @ SpaceID c\<rparr>"
      by (simp add: c1_def Let_def)
  qed
  from a b c d e show ?thesis by blast
qed

text \<open>
  C8 at a concrete configuration: a URL with a trailing slash and a space identifier.
\<close>

theorem Validate_spec_witness:
  "URL \<lparr>URL = ''http://h/'', SpaceID = ''a'', APIKey = '''', ProjectName = ''p''\<rparr> \<noteq> ''''
   \<and> snd (Validate \<lparr>URL = ''http://h/'', SpaceID = ''a'', APIKey = '''', ProjectName = ''p''\<rparr>)
       = \<lparr>URL = ''http://h/s/a'', SpaceID = ''a'', APIKey = '''', ProjectName = ''p''\<rparr>
   \<and> snd (Validate (snd (Validate
         \<lparr>URL = ''http://h/'', SpaceID = ''a'', APIKey = '''', ProjectName = ''p''\<rparr>)))
       = \<lparr>URL = ''http://h/s/a/s/a'', SpaceID = ''a'', APIKey = '''', ProjectName = ''p''\<rparr>"
proof -
  define c where
    "c = \<lparr>URL = ''http://h/'', SpaceID = ''a'', APIKey = '''', ProjectName = ''p''\<rparr>"
  have h: "URL c \<noteq> ''''" "SpaceID c \<noteq> ''''"
    by (simp_all add: c_def)
  note spec = Validate_spec [of c, unfolded Let_def]
  from spec h
  have "snd (Validate c) =
      c\<lparr>URL := drop_one_trailing_slash (URL c) @
                (if SpaceID c = '''' then '''' else ''/s/'' @ SpaceID c)\<rparr>"
    by blast
  with h have one: "snd (Validate c) =
      c\<lparr>URL := drop_one_trailing_slash (URL c) @ ''/s/'' @ SpaceID c\<rparr>"
    by simp
  from spec h
  have two: "snd (Validate (snd (Validate c))) =
      (snd (Validate c))\<lparr>URL := drop_one_trailing_slash (URL (snd (Validate c))) @
                                     ''/s/'' @ SpaceID c\<rparr>"
    by blast
  have one': "snd (Validate c) =
      \<lparr>URL = ''http://h/s/a'', SpaceID = ''a'', APIKey = '''', ProjectName = ''p''\<rparr>"
    unfolding one by (simp add: c_def drop_one_trailing_slash_def)
  have two': "snd (Validate (snd (Validate c))) =
      \<lparr>URL = ''http://h/s/a/s/a'', SpaceID = ''a'', APIKey = '''', ProjectName = ''p''\<rparr>"
    unfolding two unfolding one' by (simp add: c_def drop_one_trailing_slash_def)
  show ?thesis using h one' two' unfolding c_def by simp
qed

subsection \<open>Error classification\<close>

lemma errors_Is_wraps: "errors_Is e t \<longleftrightarrow> wraps e (Sentinel t)"
proof
  show "errors_Is e t \<Longrightarrow> wraps e (Sentinel t)"
  proof (induction e t rule: errors_Is.induct)
    case (1 s target)
    then show ?case by (auto intro: wraps.intros)
  next
    case (4 es target)
    then obtain e where "e \<in> set es" "errors_Is e target"
      by (auto simp: list_ex_iff)
    with 4 show ?case by (auto intro: wraps.intros)
  qed (auto intro: wraps.intros)
next
  have "wraps e x \<Longrightarrow> x = Sentinel t \<Longrightarrow> errors_Is e t" for x
    by (induction rule: wraps.induct) (auto simp: list_ex_iff)
  then show "wraps e (Sentinel t) \<Longrightarrow> errors_Is e t" by blast
qed

lemma APIErr_wraps_nothing: "wraps (APIErr a) x \<Longrightarrow> x = APIErr a"
  by (erule wraps.cases) auto

lemma IsNotFound_Some:
  "IsNotFound (Some e) \<longleftrightarrow>
     (case e of APIErr a \<Rightarrow> StatusCode a = 404
      | _ \<Rightarrow> \<exists>s \<in> not_found_sentinels. errors_Is e s)"
  by (cases e) (auto simp: not_found_sentinels_def)

text \<open>
  C9.  \<^verbatim>\<open>IsNotFound(err)\<close> is true exactly when \<^verbatim>\<open>err\<close> is a \<^verbatim>\<open>*APIError\<close> with status
  code 404, or \<^verbatim>\<open>err\<close> wraps one of the six not-found sentinels.  It is false for nil and
  for a \<^verbatim>\<open>*APIError\<close> with any other status code.
\<close>

theorem IsNotFound_spec:
  "(IsNotFound err \<longleftrightarrow>
      (\<exists>a. err = Some (APIErr a) \<and> StatusCode a = 404) \<or>
      (\<exists>e s. err = Some e \<and> s \<in> not_found_sentinels \<and> wraps e (Sentinel s)))
   \<and> \<not> IsNotFound None
   \<and> (StatusCode a' \<noteq> 404 \<longrightarrow> \<not> IsNotFound (Some (APIErr a')))"
proof -
  have main: "IsNotFound err \<longleftrightarrow>
      (\<exists>a. err = Some (APIErr a) \<and> StatusCode a = 404) \<or>
      (\<exists>e s. err = Some e \<and> s \<in> not_found_sentinels \<and> wraps e (Sentinel s))"
  proof (cases err)
    case None
    then show ?thesis by simp
  next
    case (Some e)
    show ?thesis
    proof (cases e)
      case (APIErr a)
      have "\<not> wraps (APIErr a) (Sentinel s)" for s
        using APIErr_wraps_nothing by blast
      with Some APIErr show ?thesis by simp
    qed (use Some in \<open>auto simp: IsNotFound_Some errors_Is_wraps [symmetric]\<close>)
  qed
  show ?thesis using main by simp
qed

theorem IsNotFound_spec_witness:
  "IsNotFound (Some (Wrapped ''get span'' (Sentinel ErrSpanNotFound)))
   \<and> StatusCode \<lparr>StatusCode = 500, Message = ''m'', Details = ''''\<rparr> \<noteq> 404
   \<and> \<not> IsNotFound (Some (APIErr \<lparr>StatusCode = 500, Message = ''m'', Details = ''''\<rparr>))"
  using IsNotFound_spec
    [of "Some (Wrapped ''get span'' (Sentinel ErrSpanNotFound))"
        "\<lparr>StatusCode = 500, Message = ''m'', Details = ''''\<rparr>"]
  by simp

subsection \<open>Wire-to-domain conversion\<close>

text \<open>
  C7.  Both conversions return nil for nil.  \<^verbatim>\<open>convertProject\<close> copies ID and Name,
  and the description exactly when the wire field is set and not null; every other
  field keeps its zero value.  \<^verbatim>\<open>convertSpan\<close> copies Name, SpanKind, StatusCode,
  StartTime, EndTime, TraceID and SpanID unconditionally, and ID, StatusMessage and
  ParentID only when their wrappers say the value is present (for the nullable
  ParentID: set and not null).
\<close>

theorem convert_spec:
  "convertProject None = None
   \<and> convertSpan None = None
   \<and> convertProject (Some p) =
       Some \<lparr>Project_ID = api_Project_ID p, Project_Name = api_Project_Name p,
             Project_Description =
               (if OptNilString_Set (api_Project_Description p) \<and>
                   \<not> OptNilString_Null (api_Project_Description p)
                then OptNilString_Value (api_Project_Description p) else ''''),
             Project_CreatedAt = 0, Project_UpdatedAt = 0\<rparr>
   \<and> convertSpan (Some s) =
       Some \<lparr>Span_ID = (if OptString_Set (api_Span_ID s)
                        then OptString_Value (api_Span_ID s) else ''''),
             Span_Name = api_Span_Name s,
             Span_SpanKind = api_Span_SpanKind s,
             Span_StatusCode = api_Span_StatusCode s,
             Span_StatusMessage =
               (if OptString_Set (api_Span_StatusMessage s)
                then OptString_Value (api_Span_StatusMessage s) else ''''),
             Span_ParentID =
               (if OptNilString_Set (api_Span_ParentID s) \<and>
                   \<not> OptNilString_Null (api_Span_ParentID s)
                then OptNilString_Value (api_Span_ParentID s) else ''''),
             Span_TraceID = api_TraceID (api_Span_Context s),
             Span_SpanID = api_SpanID (api_Span_Context s),
             Span_StartTime = api_Span_StartTime s,
             Span_EndTime = api_Span_EndTime s\<rparr>"
  by (simp add: zero_Project_def zero_Span_def Let_def)

text \<open>
  C7 at a concrete wire span: the ID is set, the status message is not, and the parent
  is set but null, so only the ID is copied among the three optional fields.
\<close>

theorem convert_spec_witness:
  "convertSpan (Some \<lparr>api_Span_ID = \<lparr>OptString_Value = ''U3Bhbjox'', OptString_Set = True\<rparr>,
       api_Span_Name = ''llm-call'',
       api_Span_Context = \<lparr>api_TraceID = ''t1'', api_SpanID = ''s1''\<rparr>,
       api_Span_SpanKind = ''LLM'',
       api_Span_ParentID =
         \<lparr>OptNilString_Value = ''ignored'', OptNilString_Set = True, OptNilString_Null = True\<rparr>,
       api_Span_StartTime = 5, api_Span_EndTime = 9,
       api_Span_StatusCode = ''OK'',
       api_Span_StatusMessage = \<lparr>OptString_Value = ''stale'', OptString_Set = False\<rparr>\<rparr>)
   = Some \<lparr>Span_ID = ''U3Bhbjox'', Span_Name = ''llm-call'', Span_SpanKind = ''LLM'',
       Span_StatusCode = ''OK'', Span_StatusMessage = '''', Span_ParentID = '''',
       Span_TraceID = ''t1'', Span_SpanID = ''s1'', Span_StartTime = 5, Span_EndTime = 9\<rparr>"
proof -
  define s where "s = \<lparr>api_Span_ID = \<lparr>OptString_Value = ''U3Bhbjox'', OptString_Set = True\<rparr>,
       api_Span_Name = ''llm-call'',
       api_Span_Context = \<lparr>api_TraceID = ''t1'', api_SpanID = ''s1''\<rparr>,
       api_Span_SpanKind = ''LLM'',
       api_Span_ParentID =
         \<lparr>OptNilString_Value = ''ignored'', OptNilString_Set = True, OptNilString_Null = True\<rparr>,
       api_Span_StartTime = 5, api_Span_EndTime = 9,
       api_Span_StatusCode = ''OK'',
       api_Span_StatusMessage = \<lparr>OptString_Value = ''stale'', OptString_Set = False\<rparr>\<rparr>"
  from convert_spec [of undefined s]
  have "convertSpan (Some s) =
       Some \<lparr>Span_ID = (if OptString_Set (api_Span_ID s)
                        then OptString_Value (api_Span_ID s) else ''''),
             Span_Name = api_Span_Name s,
             Span_SpanKind = api_Span_SpanKind s,
             Span_StatusCode = api_Span_StatusCode s,
             Span_StatusMessage =
               (if OptString_Set (api_Span_StatusMessage s)
                then OptString_Value (api_Span_StatusMessage s) else ''''),
             Span_ParentID =
               (if OptNilString_Set (api_Span_ParentID s) \<and>
                   \<not> OptNilString_Null (api_Span_ParentID s)
                then OptNilString_Value (api_Span_ParentID s) else ''''),
             Span_TraceID = api_TraceID (api_Span_Context s),
             Span_SpanID = api_SpanID (api_Span_Context s),
             Span_StartTime = api_Span_StartTime s,
             Span_EndTime = api_Span_EndTime s\<rparr>"
    by blast
  then show ?thesis unfolding s_def by simp
qed

subsection \<open>Authenticated transport\<close>

lemma canonical_Authorization [simp]:
  "CanonicalMIMEHeaderKey ''Authorization'' = ''Authorization''"
  by code_simp

lemma canonical_SDK_Version [simp]:
  "CanonicalMIMEHeaderKey ''X-Phoenix-SDK-Version'' = ''X-Phoenix-Sdk-Version''"
  by code_simp

lemma canonical_SDK_Lang [simp]:
  "CanonicalMIMEHeaderKey ''X-Phoenix-SDK-Lang'' = ''X-Phoenix-Sdk-Lang''"
  by code_simp

lemma Do_eq:
  "Do http_Do c req =
     http_Do (client c)
       (req\<lparr>Request_Header :=
          (if apiKey c \<noteq> ''''
           then (Request_Header req)(''Authorization'' \<mapsto> [''Bearer '' @ apiKey c])
           else Request_Header req)
          (''X-Phoenix-Sdk-Version'' \<mapsto> [Version], ''X-Phoenix-Sdk-Lang'' \<mapsto> [''go''])\<rparr>)"
  by (simp add: Do_def Header_Set_def Let_def)

text \<open>
  C3 as stated fails for a client without an API key: \<^verbatim>\<open>Do\<close> then writes no
  \<^verbatim>\<open>Authorization\<close> header at all, so the header of the delegated request is not
  \<^verbatim>\<open>"Bearer "\<close> followed by the (empty) key.
\<close>

theorem Do_Authorization_counterexample:
  "Header_Get
     (Request_Header
        (Do echo_transport \<lparr>client = 0, apiKey = ''''\<rparr>
            \<lparr>Method = ''GET'', Request_URL = ''http://localhost:6006/v1/projects'',
             Request_Header = no_headers, Body = ''''\<rparr>))
     ''Authorization''
   \<noteq> ''Bearer '' @ apiKey \<lparr>client = 0, apiKey = ''''\<rparr>"
  by (simp add: Do_eq echo_transport_def no_headers_def Header_Get_def)

text \<open>
  C3, amended.  \<^verbatim>\<open>authHTTPClient.Do\<close> hands the wrapped client the same request with
  only the header changed: \<^verbatim>\<open>X-Phoenix-SDK-Version\<close> is the SDK version,
  \<^verbatim>\<open>X-Phoenix-SDK-Lang\<close> is \<^verbatim>\<open>go\<close>, and \<^verbatim>\<open>Authorization\<close> is \<^verbatim>\<open>"Bearer "\<close> followed by the API
  key when the key is non-empty; with an empty key the \<^verbatim>\<open>Authorization\<close> entry is the
  one the request came with.  Every other header entry is unchanged.
\<close>

theorem Do_spec:
  "\<exists>h'. Do http_Do c req = http_Do (client c) (req\<lparr>Request_Header := h'\<rparr>)
     \<and> (apiKey c \<noteq> '''' \<longrightarrow> Header_Get h' ''Authorization'' = ''Bearer '' @ apiKey c)
     \<and> (apiKey c = '''' \<longrightarrow> h' ''Authorization'' = Request_Header req ''Authorization'')
     \<and> Header_Get h' ''X-Phoenix-SDK-Version'' = Version
     \<and> Header_Get h' ''X-Phoenix-SDK-Lang'' = ''go''
     \<and> (\<forall>k. k \<notin> {''Authorization'', ''X-Phoenix-Sdk-Version'', ''X-Phoenix-Sdk-Lang''}
            \<longrightarrow> h' k = Request_Header req k)"
proof -
  define h' where "h' =
     (if apiKey c \<noteq> ''''
      then (Request_Header req)(''Authorization'' \<mapsto> [''Bearer '' @ apiKey c])
      else Request_Header req)
     (''X-Phoenix-Sdk-Version'' \<mapsto> [Version], ''X-Phoenix-Sdk-Lang'' \<mapsto> [''go''])"
  have 1: "Do http_Do c req = http_Do (client c) (req\<lparr>Request_Header := h'\<rparr>)"
    unfolding h'_def by (rule Do_eq)
  have 2: "apiKey c \<noteq> '''' \<longrightarrow> Header_Get h' ''Authorization'' = ''Bearer '' @ apiKey c"
    by (simp add: h'_def Header_Get_def)
  have 3: "apiKey c = '''' \<longrightarrow> h' ''Authorization'' = Request_Header req ''Authorization''"
    by (simp add: h'_def)
  have 4: "Header_Get h' ''X-Phoenix-SDK-Version'' = Version"
    by (simp add: h'_def Header_Get_def)
  have 5: "Header_Get h' ''X-Phoenix-SDK-Lang'' = ''go''"
    by (simp add: h'_def Header_Get_def)
  have 6: "\<forall>k. k \<notin> {''Authorization'', ''X-Phoenix-Sdk-Version'', ''X-Phoenix-Sdk-Lang''}
            \<longrightarrow> h' k = Request_Header req k"
    by (simp add: h'_def)
  from 1 2 3 4 5 6 show ?thesis by blast
qed

theorem Do_spec_witness:
  "apiKey \<lparr>client = 0, apiKey = ''secret''\<rparr> \<noteq> ''''
   \<and> (\<exists>h'. Do echo_transport \<lparr>client = 0, apiKey = ''secret''\<rparr>
              \<lparr>Method = ''GET'', Request_URL = ''http://localhost:6006/v1/projects'',
               Request_Header = no_headers, Body = ''''\<rparr>
            = \<lparr>Method = ''GET'', Request_URL = ''http://localhost:6006/v1/projects'',
               Request_Header = h', Body = ''''\<rparr>
          \<and> Header_Get h' ''Authorization'' = ''Bearer secret''
          \<and> h' ''Content-Type'' = None)"
proof -
  obtain h' where
    a: "Do echo_transport \<lparr>client = 0, apiKey = ''secret''\<rparr>
              \<lparr>Method = ''GET'', Request_URL = ''http://localhost:6006/v1/projects'',
               Request_Header = no_headers, Body = ''''\<rparr>
        = echo_transport (client \<lparr>client = 0, apiKey = ''secret''\<rparr>)
            (\<lparr>Method = ''GET'', Request_URL = ''http://localhost:6006/v1/projects'',
               Request_Header = no_headers, Body = ''''\<rparr>\<lparr>Request_Header := h'\<rparr>)"
    and b: "apiKey \<lparr>client = 0, apiKey = ''secret''\<rparr> \<noteq> '''' \<longrightarrow>
          Header_Get h' ''Authorization'' = ''Bearer '' @ apiKey \<lparr>client = 0, apiKey = ''secret''\<rparr>"
    and c: "\<forall>k. k \<notin> {''Authorization'', ''X-Phoenix-Sdk-Version'', ''X-Phoenix-Sdk-Lang''}
            \<longrightarrow> h' k = Request_Header \<lparr>Method = ''GET'',
                     Request_URL = ''http://localhost:6006/v1/projects'',
                     Request_Header = no_headers, Body = ''''\<rparr> k"
    using Do_spec [of echo_transport "\<lparr>client = 0, apiKey = ''secret''\<rparr>"
        "\<lparr>Method = ''GET'', Request_URL = ''http://localhost:6006/v1/projects'',
               Request_Header = no_headers, Body = ''''\<rparr>"]
    by blast
  from c have "h' ''Content-Type'' = None"
    by (simp add: no_headers_def)
  with a b show ?thesis
    by (auto simp: echo_transport_def)
qed

subsection \<open>Configuration resolution\<close>






















subsection \<open>Evaluator\<close>

lemma length_run_metrics: "length (run_metrics input metrics) = length metrics"
  by (induction metrics) (simp_all add: Let_def split: prod.splits)

lemma build_annotations_no_panic:
  "\<forall>score \<in> set scores. MetricScore_Error score = '''' \<longrightarrow>
      (MetricScore_Metadata score = AnyNil \<or> (\<exists>m. MetricScore_Metadata score = AnyMap m))
   \<Longrightarrow> \<exists>annotations. build_annotations spanID scores = Inr annotations"
proof (induction scores)
  case Nil
  then show ?case by simp
next
  case (Cons score scores)
  then obtain annotations where a: "build_annotations spanID scores = Inr annotations"
    by auto
  show ?case
  proof (cases "MetricScore_Error score \<noteq> ''''")
    case True
    with a show ?thesis by simp
  next
    case False
    with Cons.prems have "MetricScore_Metadata score = AnyNil \<or>
        (\<exists>m. MetricScore_Metadata score = AnyMap m)"
      by simp
    then have "\<exists>x. score_annotation spanID score = Inr x"
      by (auto simp: score_annotation_def Let_def split: option.splits any_value.splits)
    with a False show ?thesis by auto
  qed
qed

lemma run_metrics_map:
  "run_metrics input metrics =
     map (\<lambda>metric. case snd (Metric_Evaluate metric input) of
                      Some msg \<Rightarrow> zero_MetricScore\<lparr>MetricScore_Name := Metric_Name metric,
                                                    MetricScore_Error := msg\<rparr>
                    | None \<Rightarrow> fst (Metric_Evaluate metric input)) metrics"
  by (induction metrics) (simp_all add: Let_def split_beta)

text \<open>
  Where every score without error has nil or a map as metadata, \<^verbatim>\<open>Evaluate\<close> behaves as
  specified: it returns a result with the scores of all metrics in order and a nil
  error, and it sends a request only when recording is enabled and a span identifier is
  given.
\<close>

lemma Evaluate_returns_for_map_metadata:
  assumes "\<forall>score \<in> set (run_metrics input metrics). MetricScore_Error score = '''' \<longrightarrow>
      (MetricScore_Metadata score = AnyNil \<or> (\<exists>m. MetricScore_Metadata score = AnyMap m))"
  shows "\<exists>result sent. Evaluate AnnotateSpans e start finish input metrics =
            Inr ((Some result, None), sent) \<and>
            EvalResult_Scores result = run_metrics input metrics \<and>
            length (EvalResult_Scores result) = length metrics \<and>
            (sent \<noteq> [] \<longrightarrow> recordResults e \<and> EvalInput_SpanID input \<noteq> '''')"
proof -
  obtain annotations where
    "build_annotations (EvalInput_SpanID input) (run_metrics input metrics) = Inr annotations"
    using build_annotations_no_panic [OF assms] by blast
  then show ?thesis
    by (auto simp: Evaluate_def recordScoresToPhoenix_def Let_def length_run_metrics
        split: option.splits)
qed

text \<open>
  C5 fails on the code.  With recording enabled and a span identifier given, a metric
  whose score carries metadata that is not a map makes \<^verbatim>\<open>Evaluate\<close> panic in
  \<^verbatim>\<open>recordScoresToPhoenix\<close>, where the claim has it return a non-nil result and a nil
  error for every input and metric list.
\<close>

theorem Evaluate_panics_on_string_metadata:
  "Evaluate AnnotateSpans_ok \<lparr>recordResults = True\<rparr> 0 1
     \<lparr>EvalInput_Input = AnyString ''What is the capital of France?'',
      EvalInput_Output = AnyString ''Paris'',
      EvalInput_SpanID = ''span-123''\<rparr>
     [string_metadata_metric]
   = Inl InterfaceConversion"
  by (simp add: Evaluate_def recordScoresToPhoenix_def score_annotation_def
      string_metadata_metric_def Let_def)

subsection \<open>Tracer provider registration\<close>

declare splitTrim_loop.simps [simp del]

lemma splitTrim_loop_no_panic:
  "length sep = 1 \<Longrightarrow> start \<le> i \<Longrightarrow> i \<le> length s \<Longrightarrow>
   \<exists>r. splitTrim_loop s sep i start result = Inr r"
proof (induction s sep i start result rule: splitTrim_loop.induct)
  case (1 s sep i start result)
  show ?case
  proof (cases "i < length s")
    case False
    with 1 show ?thesis
      by (subst splitTrim_loop.simps) (simp add: Let_def)
  next
    case True
    note lt = this
    show ?thesis
    proof (cases "i + length sep \<le> length s \<and> substr s i (i + length sep) = sep")
      case True
      have "\<not> i < start" using 1 by simp
      moreover have "\<exists>r. splitTrim_loop s sep (Suc i) (i + length sep)
          (if trim (substr s start i) \<noteq> '''' then result @ [trim (substr s start i)] else result)
          = Inr r"
        using "1.IH"(1) [OF lt True \<open>\<not> i < start\<close> refl refl] 1(3) lt by simp
      ultimately show ?thesis using lt True
        by (subst splitTrim_loop.simps) (simp add: Let_def)
    next
      case False
      have "\<exists>r. splitTrim_loop s sep (Suc i) start result = Inr r"
        using "1.IH"(2) [OF lt False] 1 lt by simp
      then show ?thesis using lt False
        by (subst splitTrim_loop.simps) (auto simp: Let_def)
    qed
  qed
qed

lemma splitTrim_no_panic: "length sep = 1 \<Longrightarrow> \<exists>r. splitTrim s sep = Inr r"
  unfolding splitTrim_def by (rule splitTrim_loop_no_panic) simp_all

lemma parseHeaders_loop_no_panic: "\<exists>h. parseHeaders_loop parts headers = Inr h"
proof (induction parts arbitrary: headers)
  case Nil
  then show ?case by simp
next
  case (Cons part parts)
  obtain kv where "splitTrim part ''='' = Inr kv"
    using splitTrim_no_panic [of "''=''" part] by auto
  then show ?case using Cons.IH by simp
qed

lemma parseHeaders_no_panic: "\<exists>h. parseHeaders s = Inr h"
proof -
  obtain parts where "splitTrim s '','' = Inr parts"
    using splitTrim_no_panic [of "'',''" s] by auto
  then show ?thesis
    using parseHeaders_loop_no_panic by (simp add: parseHeaders_def)
qed

text \<open>
  Both separators \<^verbatim>\<open>DefaultConfig\<close> splits at are one byte long, so the slice
  expressions of \<^verbatim>\<open>splitTrim\<close> stay in bounds and the configuration is always built.
\<close>

lemma DefaultConfig_no_panic: "\<exists>cfg. DefaultConfig env = Inr cfg"
proof -
  obtain h where "parseHeaders (env EnvClientHeaders) = Inr h"
    using parseHeaders_no_panic by blast
  then show ?thesis
    by (simp add: DefaultConfig_def Let_def)
qed

text \<open>
  The batch span processor constructor of the SDK panics exactly when the batch size it
  is left with is negative or above what \<^verbatim>\<open>make\<close> grants.  With the two options
  \<^verbatim>\<open>Register\<close> passes, that is the batch size of the configuration.
\<close>

lemma sdk_NewBatchSpanProcessor_Register_options:
  "sdk_NewBatchSpanProcessor max_cap exporter
     [WithBatchTimeout delay, WithMaxExportBatchSize n] =
     (if n < 0 \<or> max_cap < n then Inl MakeSliceCapOutOfRange
      else Inr \<lparr>bsp_exporter = exporter,
                bsp_options = \<lparr>bsp_MaxQueueSize = 2048, bsp_BatchTimeout = delay,
                               bsp_ExportTimeout = 30000 * 1000000,
                               bsp_MaxExportBatchSize = n\<rparr>\<rparr>)"
  by (simp add: sdk_NewBatchSpanProcessor_def)

text \<open>
  C6 as stated fails: it has the provider built for every configuration.  With batching
  enabled and a negative batch size, \<^verbatim>\<open>Register(WithBatch(true), WithBatchSize(-3))\<close> in
  an empty environment, the SDK constructor panics and \<^verbatim>\<open>Register\<close> returns nothing.
\<close>

theorem Register_negative_BatchSize_panics:
  "Register url_Parse_local otlp_New_ok resource_Merge_ok
     (sdk_NewBatchSpanProcessor max_cap_64) empty_env
     [otel_WithBatch True, otel_WithBatchSize (- 3)] [] = Inl MakeSliceCapOutOfRange"
  by code_simp

text \<open>
  C6.  \<^verbatim>\<open>Register\<close> always builds its configuration \<^verbatim>\<open>cfg\<close>: the defaults and the
  environment, then the options in order.  What it returns is decided by \<^verbatim>\<open>cfg\<close> and the
  SDK calls, case by case:

    \<^item> exporter creation fails: the error, wrapped, and nothing installed;
    \<^item> resource creation fails: the error, wrapped, and nothing installed;
    \<^item> \<^verbatim>\<open>cfg.Batch\<close> is true: \<^verbatim>\<open>Register\<close> calls the batch span processor constructor of
      the SDK on the exporter with \<^verbatim>\<open>WithBatchTimeout(cfg.BatchTimeout)\<close> and
      \<^verbatim>\<open>WithMaxExportBatchSize(cfg.BatchSize)\<close>, and nothing else; if the constructor
      panics so does \<^verbatim>\<open>Register\<close>, otherwise the provider is built from the processor
      it returned;
    \<^item> \<^verbatim>\<open>cfg.Batch\<close> is false: the provider is built from a simple span processor over
      the exporter.

  A provider that is built holds \<^verbatim>\<open>cfg\<close>, has that one span processor and the resource,
  and is installed as the global one exactly when \<^verbatim>\<open>cfg.SetGlobalProvider\<close> is true.
\<close>

theorem Register_spec:
  "\<exists>cfg0. DefaultConfig env = Inr cfg0 \<and>
     (let cfg = foldl (\<lambda>cfg opt. apply_otel_Option opt cfg) cfg0 opts;
          built = (\<lambda>spanProcessor res.
             Inr (Inr \<lparr>sdk_provider =
                         NewTracerProvider [WithSpanProcessor spanProcessor, WithResource res],
                       TracerProvider_config = cfg\<rparr>,
                  if SetGlobalProvider cfg
                  then global @
                         [NewTracerProvider [WithSpanProcessor spanProcessor, WithResource res]]
                  else global))
      in Register url_Parse otlp_New resource_Merge NewBatchSpanProcessor env opts global =
         (case createExporter url_Parse otlp_New cfg of
            Inl err \<Rightarrow> Inr (Inl (Wrapped ''failed to create exporter: '' err), global)
          | Inr exporter \<Rightarrow>
              (case createResource resource_Merge cfg of
                 Inl err \<Rightarrow> Inr (Inl (Wrapped ''failed to create resource: '' err), global)
               | Inr res \<Rightarrow>
                   if Batch cfg
                   then (case NewBatchSpanProcessor exporter
                                [WithBatchTimeout (BatchTimeout cfg),
                                 WithMaxExportBatchSize (BatchSize cfg)] of
                           Inl p \<Rightarrow> Inl p
                         | Inr b \<Rightarrow> built (BatchSpanProcessor b) res)
                   else built (NewSimpleSpanProcessor exporter) res)))"
proof -
  obtain cfg0 where c0: "DefaultConfig env = Inr cfg0"
    using DefaultConfig_no_panic by blast
  show ?thesis
    by (rule exI [of _ cfg0]) (simp add: c0 Register_def Let_def split: sum.splits)
qed

text \<open>
  The theorem at three calls in an empty environment, with the SDK constructor for a
  64-bit platform.  \<^verbatim>\<open>Register(WithBatch(true), WithBatchSize(64),
  WithGlobalProvider(false))\<close> builds the provider from a batch span processor of 64 spans
  and 5 seconds and installs nothing; \<^verbatim>\<open>Register(WithBatch(false))\<close> builds it from a
  simple span processor and installs it; \<^verbatim>\<open>Register(WithEndpoint("ftp://x"))\<close> fails at
  the exporter and installs nothing.
\<close>

theorem Register_spec_witness:
  "Register url_Parse_local otlp_New_ok resource_Merge_ok
     (sdk_NewBatchSpanProcessor max_cap_64) empty_env
     [otel_WithBatch True, otel_WithBatchSize 64, otel_WithGlobalProvider False] []
   = Inr (Inr \<lparr>sdk_provider =
                 NewTracerProvider
                   [WithSpanProcessor
                      (BatchSpanProcessor
                         \<lparr>bsp_exporter =
                            [otlp_WithEndpoint ''localhost:6006'', otlp_WithURLPath ''/v1/traces'',
                             otlp_WithInsecure,
                             otlp_WithHeaders [(''x-phoenix-project-name'', ''default'')]],
                          bsp_options =
                            \<lparr>bsp_MaxQueueSize = 2048, bsp_BatchTimeout = 5000000000,
                             bsp_ExportTimeout = 30000000000, bsp_MaxExportBatchSize = 64\<rparr>\<rparr>),
                    WithResource [(''openinference.project.name'', StringValue ''default'')]],
               TracerProvider_config =
                 \<lparr>Endpoint = ''http://localhost:6006'', otel_SpaceID = '''',
                  otel_ProjectName = ''default'', otel_APIKey = '''', Headers = [],
                  Protocol = ''infer'', Batch = True, BatchTimeout = 5000000000,
                  BatchSize = 64, SetGlobalProvider = False, ServiceName = '''',
                  ServiceVersion = '''', Insecure = False\<rparr>\<rparr>,
          [])
   \<and> Register url_Parse_local otlp_New_ok resource_Merge_ok
       (sdk_NewBatchSpanProcessor max_cap_64) empty_env [otel_WithBatch False] []
     = Inr (Inr \<lparr>sdk_provider =
                 NewTracerProvider
                   [WithSpanProcessor
                      (NewSimpleSpanProcessor
                         [otlp_WithEndpoint ''localhost:6006'', otlp_WithURLPath ''/v1/traces'',
                          otlp_WithInsecure,
                          otlp_WithHeaders [(''x-phoenix-project-name'', ''default'')]]),
                    WithResource [(''openinference.project.name'', StringValue ''default'')]],
               TracerProvider_config =
                 \<lparr>Endpoint = ''http://localhost:6006'', otel_SpaceID = '''',
                  otel_ProjectName = ''default'', otel_APIKey = '''', Headers = [],
                  Protocol = ''infer'', Batch = False, BatchTimeout = 5000000000,
                  BatchSize = 512, SetGlobalProvider = True, ServiceName = '''',
                  ServiceVersion = '''', Insecure = False\<rparr>\<rparr>,
          [NewTracerProvider
                   [WithSpanProcessor
                      (NewSimpleSpanProcessor
                         [otlp_WithEndpoint ''localhost:6006'', otlp_WithURLPath ''/v1/traces'',
                          otlp_WithInsecure,
                          otlp_WithHeaders [(''x-phoenix-project-name'', ''default'')]]),
                    WithResource [(''openinference.project.name'', StringValue ''default'')]]])
   \<and> Register url_Parse_local otlp_New_ok resource_Merge_ok
       (sdk_NewBatchSpanProcessor max_cap_64) empty_env [otel_WithEndpoint ''ftp://x''] []
     = Inr (Inl (Wrapped ''failed to create exporter: ''
                   (Wrapped ''invalid endpoint URL: '' (OtherError ''parse error''))), [])"
proof -
  have d: "DefaultConfig empty_env =
     Inr \<lparr>Endpoint = ''http://localhost:6006'', otel_SpaceID = '''',
          otel_ProjectName = ''default'', otel_APIKey = '''', Headers = [],
          Protocol = ''infer'', Batch = False, BatchTimeout = 5000000000,
          BatchSize = 512, SetGlobalProvider = True, ServiceName = '''',
          ServiceVersion = '''', Insecure = False\<rparr>"
    by code_simp
  have e: "createExporter url_Parse_local otlp_New_ok
             \<lparr>Endpoint = ''http://localhost:6006'', otel_SpaceID = '''',
              otel_ProjectName = ''default'', otel_APIKey = '''', Headers = [],
              Protocol = ''infer'', Batch = b, BatchTimeout = 5000000000,
              BatchSize = n, SetGlobalProvider = g, ServiceName = '''',
              ServiceVersion = '''', Insecure = False\<rparr>
           = Inr [otlp_WithEndpoint ''localhost:6006'', otlp_WithURLPath ''/v1/traces'',
                  otlp_WithInsecure,
                  otlp_WithHeaders [(''x-phoenix-project-name'', ''default'')]]" for b n g
    by (simp add: createExporter_def EffectiveEndpoint_def HasPrefix_def url_Parse_local_def
        otlp_New_ok_def DefaultHTTPPath_def Let_def)
  have e': "createExporter url_Parse_local otlp_New_ok
             \<lparr>Endpoint = ''ftp://x'', otel_SpaceID = '''',
              otel_ProjectName = ''default'', otel_APIKey = '''', Headers = [],
              Protocol = ''infer'', Batch = False, BatchTimeout = 5000000000,
              BatchSize = 512, SetGlobalProvider = True, ServiceName = '''',
              ServiceVersion = '''', Insecure = False\<rparr>
           = Inl (Wrapped ''invalid endpoint URL: '' (OtherError ''parse error''))"
    by code_simp
  have r: "createResource resource_Merge_ok
             \<lparr>Endpoint = ep, otel_SpaceID = '''',
              otel_ProjectName = ''default'', otel_APIKey = '''', Headers = [],
              Protocol = ''infer'', Batch = b, BatchTimeout = 5000000000,
              BatchSize = n, SetGlobalProvider = g, ServiceName = '''',
              ServiceVersion = '''', Insecure = False\<rparr>
           = Inr [(''openinference.project.name'', StringValue ''default'')]" for ep b n g
    by (simp add: createResource_def resource_Merge_ok_def)
  have p: "sdk_NewBatchSpanProcessor max_cap_64 ex
             [WithBatchTimeout 5000000000, WithMaxExportBatchSize 64]
           = Inr \<lparr>bsp_exporter = ex,
                  bsp_options =
                    \<lparr>bsp_MaxQueueSize = 2048, bsp_BatchTimeout = 5000000000,
                     bsp_ExportTimeout = 30000000000, bsp_MaxExportBatchSize = 64\<rparr>\<rparr>"
    for ex :: "otlptracehttp_Option list"
    by (simp add: sdk_NewBatchSpanProcessor_def max_cap_64_def)
  note spec = Register_spec [where env = empty_env and global = "[]"
      and url_Parse = url_Parse_local and otlp_New = otlp_New_ok
      and resource_Merge = resource_Merge_ok
      and NewBatchSpanProcessor = "sdk_NewBatchSpanProcessor max_cap_64"]
  have 1: "Register url_Parse_local otlp_New_ok resource_Merge_ok
     (sdk_NewBatchSpanProcessor max_cap_64) empty_env
     [otel_WithBatch True, otel_WithBatchSize 64, otel_WithGlobalProvider False] []
   = Inr (Inr \<lparr>sdk_provider =
                 NewTracerProvider
                   [WithSpanProcessor
                      (BatchSpanProcessor
                         \<lparr>bsp_exporter =
                            [otlp_WithEndpoint ''localhost:6006'', otlp_WithURLPath ''/v1/traces'',
                             otlp_WithInsecure,
                             otlp_WithHeaders [(''x-phoenix-project-name'', ''default'')]],
                          bsp_options =
                            \<lparr>bsp_MaxQueueSize = 2048, bsp_BatchTimeout = 5000000000,
                             bsp_ExportTimeout = 30000000000, bsp_MaxExportBatchSize = 64\<rparr>\<rparr>),
                    WithResource [(''openinference.project.name'', StringValue ''default'')]],
               TracerProvider_config =
                 \<lparr>Endpoint = ''http://localhost:6006'', otel_SpaceID = '''',
                  otel_ProjectName = ''default'', otel_APIKey = '''', Headers = [],
                  Protocol = ''infer'', Batch = True, BatchTimeout = 5000000000,
                  BatchSize = 64, SetGlobalProvider = False, ServiceName = '''',
                  ServiceVersion = '''', Insecure = False\<rparr>\<rparr>,
          [])"
    using spec [where opts = "[otel_WithBatch True, otel_WithBatchSize 64, otel_WithGlobalProvider False]"]
    by (simp add: d e r p)
  have 2: "Register url_Parse_local otlp_New_ok resource_Merge_ok
       (sdk_NewBatchSpanProcessor max_cap_64) empty_env [otel_WithBatch False] []
     = Inr (Inr \<lparr>sdk_provider =
                 NewTracerProvider
                   [WithSpanProcessor
                      (NewSimpleSpanProcessor
                         [otlp_WithEndpoint ''localhost:6006'', otlp_WithURLPath ''/v1/traces'',
                          otlp_WithInsecure,
                          otlp_WithHeaders [(''x-phoenix-project-name'', ''default'')]]),
                    WithResource [(''openinference.project.name'', StringValue ''default'')]],
               TracerProvider_config =
                 \<lparr>Endpoint = ''http://localhost:6006'', otel_SpaceID = '''',
                  otel_ProjectName = ''default'', otel_APIKey = '''', Headers = [],
                  Protocol = ''infer'', Batch = False, BatchTimeout = 5000000000,
                  BatchSize = 512, SetGlobalProvider = True, ServiceName = '''',
                  ServiceVersion = '''', Insecure = False\<rparr>\<rparr>,
          [NewTracerProvider
                   [WithSpanProcessor
                      (NewSimpleSpanProcessor
                         [otlp_WithEndpoint ''localhost:6006'', otlp_WithURLPath ''/v1/traces'',
                          otlp_WithInsecure,
                          otlp_WithHeaders [(''x-phoenix-project-name'', ''default'')]]),
                    WithResource [(''openinference.project.name'', StringValue ''default'')]]])"
    using spec [where opts = "[otel_WithBatch False]"]
    by (simp add: d e r)
  have 3: "Register url_Parse_local otlp_New_ok resource_Merge_ok
       (sdk_NewBatchSpanProcessor max_cap_64) empty_env [otel_WithEndpoint ''ftp://x''] []
     = Inr (Inl (Wrapped ''failed to create exporter: ''
                   (Wrapped ''invalid endpoint URL: '' (OtherError ''parse error''))), [])"
    using spec [where opts = "[otel_WithEndpoint ''ftp://x'']"]
    by (simp add: d e')
  from 1 2 3 show ?thesis by blast
qed

subsection \<open>Trace and span adapter\<close>

lemma length_hex_String [simp]: "length (hex_String n w) = n"
  by (simp add: hex_String_def)

lemma TraceID_String_nonempty [simp]: "TraceID_String tid \<noteq> ''''"
proof
  assume "TraceID_String tid = ''''"
  then have "length (TraceID_String tid) = 0" by simp
  then show False by (simp add: TraceID_String_def)
qed

lemma spanWrapper_TraceID_nonempty [simp]: "spanWrapper_TraceID s \<noteq> ''''"
  by (simp add: spanWrapper_TraceID_def)

lemma traceWrapper_ID_nonempty [simp]: "traceWrapper_ID t \<noteq> ''''"
  by (simp add: traceWrapper_ID_def)

lemma snd_newSpan:
  "snd (newSpan json w p name sp tid psid cfg now) =
     \<lparr>spanWrapper_provider = p, spanWrapper_otelSpan = sp,
      spanWrapper_traceID = tid, spanWrapper_parentSpanID = psid,
      spanWrapper_name = name, spanWrapper_spanType = SpanOptions_Type cfg,
      spanWrapper_startTime = now, spanWrapper_endTime = None\<rparr>"
  by (simp add: newSpan_def Let_def)



lemma tracer_Start_ctx:
  "fst (snd (tracer_Start w ctx name ids)) =
     (currentSpanKey, OtelSpanValue (snd (snd (tracer_Start w ctx name ids)))) # ctx"
  by (simp add: tracer_Start_def Let_def WithValue_def)

lemma Provider_StartSpan_span:
  "fst (snd (snd (Provider_StartSpan json p w ctx name cfg now ids))) =
     \<lparr>spanWrapper_provider = p,
      spanWrapper_otelSpan = snd (snd (tracer_Start w ctx name ids)),
      spanWrapper_traceID =
        (case traceFromContext ctx of
           Some t \<Rightarrow> traceWrapper_ID t
         | None \<Rightarrow> (case spanFromContext ctx of
                      Some parent \<Rightarrow> spanWrapper_TraceID parent | None \<Rightarrow> '''')),
      spanWrapper_parentSpanID =
        (case spanFromContext ctx of Some parent \<Rightarrow> spanWrapper_ID parent | None \<Rightarrow> ''''),
      spanWrapper_name = name, spanWrapper_spanType = SpanOptions_Type cfg,
      spanWrapper_startTime = now, spanWrapper_endTime = None\<rparr>"
  by (simp add: Provider_StartSpan_def Let_def split_beta snd_newSpan split: option.splits)

lemma Provider_StartSpan_ctx:
  "fst (snd (Provider_StartSpan json p w ctx name cfg now ids)) =
     (spanContextKey, SpanValue (fst (snd (snd (Provider_StartSpan json p w ctx name cfg now ids)))))
     # (currentSpanKey, OtelSpanValue (snd (snd (tracer_Start w ctx name ids)))) # ctx"
  by (simp add: Provider_StartSpan_def Let_def split_beta contextWithSpan_def WithValue_def
      tracer_Start_ctx split: option.splits)

lemma Provider_StartSpan_err:
  "snd (snd (snd (Provider_StartSpan json p w ctx name cfg now ids))) = None"
  by (simp add: Provider_StartSpan_def Let_def split_beta)
text \<open>
  C1.  For every call \<^verbatim>\<open>Provider.StartSpan(ctx, name)\<close>: the error is nil; the span
  found in the returned context is the new span; the new span's \<^verbatim>\<open>ParentSpanID()\<close> is
  the \<^verbatim>\<open>ID()\<close> of the span in the incoming context, and empty when there is none; its
  \<^verbatim>\<open>TraceID()\<close> is the \<^verbatim>\<open>ID()\<close> of the trace in the incoming context when there is one,
  and otherwise the \<^verbatim>\<open>TraceID()\<close> of the parent span found there.
\<close>

theorem Provider_StartSpan_linkage:
  assumes "Provider_StartSpan json p w ctx name cfg now ids = (w', ctx', s, err)"
  shows "err = None
    \<and> spanFromContext ctx' = Some s
    \<and> Provider_SpanFromContext p ctx' = (Some s, True)
    \<and> spanWrapper_ParentSpanID s =
        (case spanFromContext ctx of Some parent \<Rightarrow> spanWrapper_ID parent | None \<Rightarrow> '''')
    \<and> (\<forall>t. traceFromContext ctx = Some t \<longrightarrow> spanWrapper_TraceID s = traceWrapper_ID t)
    \<and> (\<forall>parent. traceFromContext ctx = None \<and> spanFromContext ctx = Some parent \<longrightarrow>
           spanWrapper_TraceID s = spanWrapper_TraceID parent)"
proof -
  have s: "s = fst (snd (snd (Provider_StartSpan json p w ctx name cfg now ids)))"
    and c: "ctx' = fst (snd (Provider_StartSpan json p w ctx name cfg now ids))"
    and e: "err = snd (snd (snd (Provider_StartSpan json p w ctx name cfg now ids)))"
    using assms by simp_all
  have 1: "err = None"
    unfolding e by (rule Provider_StartSpan_err)
  have 2: "spanFromContext ctx' = Some s"
    unfolding c s by (subst Provider_StartSpan_ctx) (simp add: spanFromContext_def Value_def)
  have 3: "Provider_SpanFromContext p ctx' = (Some s, True)"
    using 2 by (simp add: Provider_SpanFromContext_def)
  have 4: "spanWrapper_ParentSpanID s =
        (case spanFromContext ctx of Some parent \<Rightarrow> spanWrapper_ID parent | None \<Rightarrow> '''')"
    unfolding s by (simp add: spanWrapper_ParentSpanID_def Provider_StartSpan_span)
  have 5: "\<forall>t. traceFromContext ctx = Some t \<longrightarrow> spanWrapper_TraceID s = traceWrapper_ID t"
    unfolding s by (simp add: spanWrapper_TraceID_def Provider_StartSpan_span)
  have 6: "\<forall>parent. traceFromContext ctx = None \<and> spanFromContext ctx = Some parent \<longrightarrow>
           spanWrapper_TraceID s = spanWrapper_TraceID parent"
  proof (intro allI impI)
    fix parent
    assume a: "traceFromContext ctx = None \<and> spanFromContext ctx = Some parent"
    then have "spanWrapper_traceID s = spanWrapper_TraceID parent"
      unfolding s by (simp add: Provider_StartSpan_span)
    then show "spanWrapper_TraceID s = spanWrapper_TraceID parent"
      by (subst spanWrapper_TraceID_def) simp
  qed
  from 1 2 3 4 5 6 show ?thesis by blast
qed
text \<open>
  C1 at a concrete call: a span started in a context that already holds a trace and a
  span.  The new span is the one in the returned context, its parent is the span that
  was in the incoming context, and its trace identifier is the one of the trace.
\<close>

theorem Provider_StartSpan_linkage_witness:
  "spanFromContext (fst (snd child_span_start)) = Some (fst (snd (snd child_span_start)))
   \<and> spanFromContext (fst (snd inner_span_start)) = Some (fst (snd (snd inner_span_start)))
   \<and> spanWrapper_ParentSpanID (fst (snd (snd child_span_start)))
       = spanWrapper_ID (fst (snd (snd inner_span_start)))
   \<and> spanWrapper_ParentSpanID (fst (snd (snd child_span_start))) = ''000000000000000a''
   \<and> traceFromContext (fst (snd inner_span_start)) = Some (fst (snd (snd inner_trace_start)))
   \<and> spanWrapper_TraceID (fst (snd (snd child_span_start)))
       = traceWrapper_ID (fst (snd (snd inner_trace_start)))
   \<and> spanWrapper_TraceID (fst (snd (snd child_span_start)))
       = ''00000000000000000000000000000005''"
proof -
  have run: "Provider_StartSpan example_json example_provider (fst inner_span_start)
       (fst (snd inner_span_start)) ''tool-call'' no_SpanOptions 103 (11, 12)
     = (fst child_span_start, fst (snd child_span_start), fst (snd (snd child_span_start)),
        snd (snd (snd child_span_start)))"
    by (simp add: child_span_start_def)
  have parent: "spanFromContext (fst (snd inner_span_start)) = Some (fst (snd (snd inner_span_start)))"
    by code_simp
  have trace: "traceFromContext (fst (snd inner_span_start)) = Some (fst (snd (snd inner_trace_start)))"
    by code_simp
  have id: "spanWrapper_ID (fst (snd (snd inner_span_start))) = ''000000000000000a''"
    by code_simp
  have tid: "traceWrapper_ID (fst (snd (snd inner_trace_start))) = ''00000000000000000000000000000005''"
    by code_simp
  from Provider_StartSpan_linkage [OF run] parent trace id tid
  show ?thesis by simp
qed
lemma spanWrapper_AddFeedbackScore_plain:
  "spanWrapper_AddFeedbackScore w s ctx name score [] =
     (w\<lparr>calls := calls w @
         [(span_ref (spanWrapper_otelSpan s),
           AddEvent ''feedback''
             [(''feedback.name'', StringValue name), (''feedback.score'', Float64Value score)])]\<rparr>,
      None)"
  by (simp add: spanWrapper_AddFeedbackScore_def buildFeedbackAttrs_def zero_FeedbackOptions_def
      otel_AddEvent_def Let_def)

lemma traceWrapper_AddFeedbackScore_plain:
  "traceWrapper_AddFeedbackScore w t ctx name score [] =
     (w\<lparr>calls := calls w @
         [(span_ref (traceWrapper_otelSpan t),
           AddEvent ''feedback''
             [(''feedback.name'', StringValue name), (''feedback.score'', Float64Value score)])]\<rparr>,
      None)"
  by (simp add: traceWrapper_AddFeedbackScore_def buildFeedbackAttrs_def zero_FeedbackOptions_def
      otel_AddEvent_def Let_def)

text \<open>
  C10.  \<^verbatim>\<open>Provider.AddFeedbackScore\<close> adds one \<^verbatim>\<open>feedback\<close> event to the OpenTelemetry
  span of the span wrapper in the context when there is one, otherwise to the one of the
  trace wrapper in the context, and returns nil; it returns
  \<^verbatim>\<open>llmops.ErrNoActiveTrace\<close>, and does nothing, exactly when the context holds neither.
  The event carries the name and the score only: the result does not depend on the
  reason, the source or the identifiers given in the options.
\<close>

theorem Provider_AddFeedbackScore_spec:
  "(\<forall>s. spanFromContext ctx = Some s \<longrightarrow>
       Provider_AddFeedbackScore p w ctx opts =
         (w\<lparr>calls := calls w @
             [(span_ref (spanWrapper_otelSpan s),
               AddEvent ''feedback''
                 [(''feedback.name'', StringValue (FeedbackScoreOpts_Name opts)),
                  (''feedback.score'', Float64Value (FeedbackScoreOpts_Score opts))])]\<rparr>,
          None))
   \<and> (\<forall>t. spanFromContext ctx = None \<and> traceFromContext ctx = Some t \<longrightarrow>
       Provider_AddFeedbackScore p w ctx opts =
         (w\<lparr>calls := calls w @
             [(span_ref (traceWrapper_otelSpan t),
               AddEvent ''feedback''
                 [(''feedback.name'', StringValue (FeedbackScoreOpts_Name opts)),
                  (''feedback.score'', Float64Value (FeedbackScoreOpts_Score opts))])]\<rparr>,
          None))
   \<and> (spanFromContext ctx = None \<and> traceFromContext ctx = None \<longrightarrow>
       Provider_AddFeedbackScore p w ctx opts = (w, Some (LLMOps ErrNoActiveTrace)))
   \<and> (snd (Provider_AddFeedbackScore p w ctx opts) = Some (LLMOps ErrNoActiveTrace) \<longleftrightarrow>
       spanFromContext ctx = None \<and> traceFromContext ctx = None)
   \<and> Provider_AddFeedbackScore p w ctx
        (opts\<lparr>FeedbackScoreOpts_Reason := reason, FeedbackScoreOpts_SpanID := spanID,
              FeedbackScoreOpts_TraceID := traceID, FeedbackScoreOpts_Source := source\<rparr>)
       = Provider_AddFeedbackScore p w ctx opts"
  by (simp add: Provider_AddFeedbackScore_def spanWrapper_AddFeedbackScore_plain
      traceWrapper_AddFeedbackScore_plain split: option.splits)

text \<open>
  C10 at concrete contexts: feedback given in the context of the example child span
  goes to that span's OpenTelemetry span (the fourth span started), and feedback on
  the background context is refused.
\<close>

theorem Provider_AddFeedbackScore_spec_witness:
  "spanFromContext (fst (snd child_span_start)) = Some (fst (snd (snd child_span_start)))
   \<and> Provider_AddFeedbackScore example_provider (fst child_span_start)
        (fst (snd child_span_start)) example_feedback
      = (\<lparr>next_ref = 4,
          calls = [(3, AddEvent ''feedback''
                         [(''feedback.name'', StringValue ''quality''),
                          (''feedback.score'', Float64Value 0x3FEE666666666666)])]\<rparr>,
         None)
   \<and> spanFromContext Background = None \<and> traceFromContext Background = None
   \<and> Provider_AddFeedbackScore example_provider initial_world Background example_feedback
      = (initial_world, Some (LLMOps ErrNoActiveTrace))"
proof -
  have sp: "spanFromContext (fst (snd child_span_start)) = Some (fst (snd (snd child_span_start)))"
    by code_simp
  have none: "spanFromContext Background = None \<and> traceFromContext Background = None"
    by (simp add: spanFromContext_def traceFromContext_def Background_def Value_def)
  have w: "fst child_span_start = \<lparr>next_ref = 4, calls = []\<rparr>"
    by code_simp
  have r: "span_ref (spanWrapper_otelSpan (fst (snd (snd child_span_start)))) = 3"
    by code_simp
  from Provider_AddFeedbackScore_spec
    [of "fst (snd child_span_start)" example_provider "fst child_span_start" example_feedback]
    sp
  have a: "Provider_AddFeedbackScore example_provider (fst child_span_start)
             (fst (snd child_span_start)) example_feedback =
         ((fst child_span_start)\<lparr>calls := calls (fst child_span_start) @
             [(span_ref (spanWrapper_otelSpan (fst (snd (snd child_span_start)))),
               AddEvent ''feedback''
                 [(''feedback.name'', StringValue (FeedbackScoreOpts_Name example_feedback)),
                  (''feedback.score'', Float64Value (FeedbackScoreOpts_Score example_feedback))])]\<rparr>,
          None)"
    by blast
  from Provider_AddFeedbackScore_spec
    [of Background example_provider initial_world example_feedback] none
  have b: "Provider_AddFeedbackScore example_provider initial_world Background example_feedback
      = (initial_world, Some (LLMOps ErrNoActiveTrace))"
    by blast
  from a have a': "Provider_AddFeedbackScore example_provider (fst child_span_start)
        (fst (snd child_span_start)) example_feedback
      = (\<lparr>next_ref = 4,
          calls = [(3, AddEvent ''feedback''
                         [(''feedback.name'', StringValue ''quality''),
                          (''feedback.score'', Float64Value 0x3FEE666666666666)])]\<rparr>,
         None)"
    unfolding r w by (simp add: example_feedback_def)
  from sp none a' b show ?thesis by blast
qed

















end
